theory Spec2Isabelle
  imports Main "HOL-Library.Word" "HOL-Library.Sublist"
begin

section \<open>Strings of the Go standard library, as far as the connection engine uses them\<close>

text \<open>
  Go strings are byte sequences; \<open>string\<close> (a list of 8-bit characters) models them
  byte for byte. The helpers below are the library functions that \<open>ftpconn.go\<close> and
  \<open>commands.go\<close> call, written from their documented behaviour on such byte strings.
\<close>

definition slash :: char where
  "slash = CHR ''/''"

text \<open>\<open>strings.Trim(s, cutset)\<close> for an ASCII cutset: bytes of the cutset are removed
  from both ends.\<close>

definition Trim :: "string \<Rightarrow> string \<Rightarrow> string" where
  "Trim s cutset =
     rev (dropWhile (\<lambda>c. c \<in> set cutset) (rev (dropWhile (\<lambda>c. c \<in> set cutset) s)))"

text \<open>\<open>strings.SplitN(s, " ", 2)\<close>: at most two pieces, cut at the first space.\<close>

definition SplitN2 :: "string \<Rightarrow> string list" where
  "SplitN2 s =
     (if CHR '' '' \<in> set s
      then [takeWhile (\<lambda>c. c \<noteq> CHR '' '') s, tl (dropWhile (\<lambda>c. c \<noteq> CHR '' '') s)]
      else [s])"

text \<open>\<open>strings.Split(s, sep)\<close> for a one-byte separator. The result is never empty:
  \<open>Split("", sep)\<close> is the list holding one empty string.\<close>

fun Split :: "char \<Rightarrow> string \<Rightarrow> string list" where
  "Split d [] = [[]]"
| "Split d (c # cs) =
     (if c = d then [] # Split d cs
      else (case Split d cs of x # xs \<Rightarrow> (c # x) # xs | [] \<Rightarrow> [[c]]))"

text \<open>\<open>strings.Join(xs, sep)\<close>.\<close>

fun Join :: "string list \<Rightarrow> string \<Rightarrow> string" where
  "Join [] sep = []"
| "Join [x] sep = x"
| "Join (x # y # ys) sep = x @ sep @ Join (y # ys) sep"

text \<open>\<open>strings.Replace(s, "//", "/", -1)\<close>: every non-overlapping occurrence, from the
  left.\<close>

fun ReplaceSlashSlash :: "string \<Rightarrow> string" where
  "ReplaceSlashSlash (a # b # cs) =
     (if a = slash \<and> b = slash then slash # ReplaceSlashSlash cs
      else a # ReplaceSlashSlash (b # cs))"
| "ReplaceSlashSlash cs = cs"

text \<open>The UTF-8 encodings of the runes for which \<open>unicode.IsSpace\<close> holds: the six ASCII
  ones, U+0085, U+00A0, U+1680, U+2000 to U+200A, U+2028, U+2029, U+202F, U+205F and
  U+3000.\<close>

definition space_runes :: "string list" where
  "space_runes =
     [[CHR 0x09], [CHR 0x0A], [CHR 0x0B], [CHR 0x0C], [CHR 0x0D], [CHR 0x20],
      [CHR 0xC2, CHR 0x85], [CHR 0xC2, CHR 0xA0],
      [CHR 0xE1, CHR 0x9A, CHR 0x80],
      [CHR 0xE2, CHR 0x80, CHR 0x80], [CHR 0xE2, CHR 0x80, CHR 0x81],
      [CHR 0xE2, CHR 0x80, CHR 0x82], [CHR 0xE2, CHR 0x80, CHR 0x83],
      [CHR 0xE2, CHR 0x80, CHR 0x84], [CHR 0xE2, CHR 0x80, CHR 0x85],
      [CHR 0xE2, CHR 0x80, CHR 0x86], [CHR 0xE2, CHR 0x80, CHR 0x87],
      [CHR 0xE2, CHR 0x80, CHR 0x88], [CHR 0xE2, CHR 0x80, CHR 0x89],
      [CHR 0xE2, CHR 0x80, CHR 0x8A],
      [CHR 0xE2, CHR 0x80, CHR 0xA8], [CHR 0xE2, CHR 0x80, CHR 0xA9],
      [CHR 0xE2, CHR 0x80, CHR 0xAF], [CHR 0xE2, CHR 0x81, CHR 0x9F],
      [CHR 0xE3, CHR 0x80, CHR 0x80]]"

text \<open>Dropping, as long as there is one, a leading rune out of a list of encodings.\<close>

function trim_runes :: "string list \<Rightarrow> string \<Rightarrow> string" where
  "trim_runes ws s =
     (case find (\<lambda>w. w \<noteq> [] \<and> take (length w) s = w) ws of
        None \<Rightarrow> s
      | Some w \<Rightarrow> trim_runes ws (drop (length w) s))"
  by pat_completeness auto
termination
proof (relation "measure (\<lambda>(ws, s). length s)")
  show "wf (measure (\<lambda>(ws, s). length s))" by simp
next
  fix ws :: "string list" and s w :: string
  assume "find (\<lambda>w. w \<noteq> [] \<and> take (length w) s = w) ws = Some w"
  then have w: "w \<noteq> []" "take (length w) s = w"
    by (auto simp: find_Some_iff)
  from w(2) have "length (take (length w) s) = length w"
    by simp
  then have "length w \<le> length s"
    by simp
  with w(1) show "((ws, drop (length w) s), (ws, s)) \<in> measure (\<lambda>(ws, s). length s)"
    by (cases w) auto
qed

text \<open>\<open>strings.TrimSpace\<close>: leading, then trailing white space runes are removed.\<close>

definition TrimSpace :: "string \<Rightarrow> string" where
  "TrimSpace s = rev (trim_runes (map rev space_runes) (rev (trim_runes space_runes s)))"

section \<open>Parsing a control line\<close>

text \<open>\<open>ftpConn.parseLine\<close>: the line without its CR and LF bytes is cut at the first
  space; the first piece is returned as it is, the second one trimmed.\<close>

definition parseLine :: "string \<Rightarrow> string \<times> string" where
  "parseLine line =
     (let params = SplitN2 (Trim line [CHR 0x0D, CHR 0x0A])
      in if length params = 1 then (params ! 0, [])
         else (params ! 0, TrimSpace (params ! 1)))"

section \<open>Cleaning a path\<close>

text \<open>
  \<open>filepath.Clean\<close> on a system whose separator is the slash. The library scans the
  path element by element: an empty element and \<open>.\<close> are skipped; \<open>..\<close> removes the
  last element written if there is one that is not itself \<open>..\<close>, is dropped at the root
  of a rooted path, and is kept in front of a relative one; any other element is
  written. The elements written so far are kept here as a stack, the last one first.
\<close>

definition clean_step :: "bool \<Rightarrow> string list \<Rightarrow> string \<Rightarrow> string list" where
  "clean_step rooted out e =
     (if e = [] \<or> e = ''.'' then out
      else if e = ''..'' then
        (case out of
           x # xs \<Rightarrow> if x \<noteq> ''..'' then xs else if rooted then out else e # out
         | [] \<Rightarrow> if rooted then out else [e])
      else e # out)"

definition Clean :: "string \<Rightarrow> string" where
  "Clean path =
     (if path = [] then ''.''
      else let rooted = (hd path = slash);
               out = foldl (clean_step rooted) [] (Split slash path)
           in if rooted then slash # Join (rev out) [slash]
              else if out = [] then ''.''
              else Join (rev out) [slash])"

section \<open>Numbers in replies and parameters\<close>

text \<open>\<open>%d\<close> of \<open>fmt.Sprintf\<close>.\<close>

definition digit_char :: "nat \<Rightarrow> char" where
  "digit_char n = char_of (48 + n)"

fun itoa_nat :: "nat \<Rightarrow> string" where
  "itoa_nat n = (if n < 10 then [digit_char n] else itoa_nat (n div 10) @ [digit_char (n mod 10)])"

declare itoa_nat.simps [simp del]

definition itoa :: "int \<Rightarrow> string" where
  "itoa i = (if i < 0 then CHR ''-'' # itoa_nat (nat (- i)) else itoa_nat (nat i))"

definition is_digit :: "char \<Rightarrow> bool" where
  "is_digit c = (48 \<le> (of_char c :: nat) \<and> (of_char c :: nat) \<le> 57)"

definition digits_value :: "string \<Rightarrow> nat" where
  "digits_value s = foldl (\<lambda>a c. 10 * a + (of_char c - 48)) 0 s"

text \<open>\<open>strconv.ParseUint(s, 10, 16)\<close>: decimal digits only, at least one, and a value that
  fits 16 bits; \<open>None\<close> is the error.\<close>

definition ParseUint16 :: "string \<Rightarrow> nat option" where
  "ParseUint16 s =
     (if s = [] \<or> \<not> list_all is_digit s then None
      else if digits_value s > 65535 then None
      else Some (digits_value s))"

text \<open>\<open>strconv.Atoi\<close> on a 64-bit platform: an optional sign, then decimal digits.\<close>

definition Atoi :: "string \<Rightarrow> int option" where
  "Atoi s =
     (let neg = (s \<noteq> [] \<and> hd s = CHR ''-'');
          body = (if s \<noteq> [] \<and> (hd s = CHR ''+'' \<or> hd s = CHR ''-'') then tl s else s)
      in if body = [] \<or> \<not> list_all is_digit body then None
         else let v = int (digits_value body)
              in if neg then (if v > 2 ^ 63 then None else Some (- v))
                 else (if v \<ge> 2 ^ 63 then None else Some v))"

text \<open>\<open>strings.ToUpper(param) == "X"\<close> for the four letters the handlers compare with.
  Besides the letter in either case, U+017F (long s) has the upper case S and U+0131
  (dotless i) the upper case I.\<close>

definition ToUpper_is :: "string \<Rightarrow> string \<Rightarrow> bool" where
  "ToUpper_is param letter =
     (if letter = ''S'' then param \<in> set [''S'', ''s'', [CHR 0xC5, CHR 0xBF]]
      else if letter = ''I'' then param \<in> set [''I'', ''i'', [CHR 0xC4, CHR 0xB1]]
      else if letter = ''A'' then param \<in> set [''A'', ''a'']
      else if letter = ''F'' then param \<in> set [''F'', ''f'']
      else False)"

text \<open>\<open>regexp.MatchString("^-[alt]+$", param)\<close>.\<close>

definition listFlagsRegexp :: "string \<Rightarrow> bool" where
  "listFlagsRegexp param =
     (case param of
        [] \<Rightarrow> False
      | c # cs \<Rightarrow> c = CHR ''-'' \<and> cs \<noteq> [] \<and> list_all (\<lambda>x. x \<in> set ''alt'') cs)"

section \<open>Session state, environment and observable events\<close>

type_synonym port = "16 word"

datatype ftpDataSocket = ftpActiveSocket string port | ftpPassiveSocket string port

text \<open>What a session does to the outside: lines written on the control connection,
  calls of the driver (operation name and path arguments), and what happens to the
  sockets. A handler appends to the trace in the order in which it acts.\<close>

datatype event =
    Reply nat string
  | ReplyLines "string list"
  | DriverCall string "string list"
  | CloseControl
  | CloseData
  | CloseReader
  | CopyToData string
  | Sleep
  | Dial string port
  | ListenOn string port

text \<open>The fields of \<open>ftpConn\<close>. The control connection, its reader and writer, the
  driver and the logger are not data of the model: their effects are the trace, their
  answers come from the environment below. Logging is left out. The two bounds of the
  passive range have the 16-bit type with which the socket functions take them.\<close>

record ftpConn =
  dataConn :: "ftpDataSocket option"
  serverName :: string
  sessionId :: string
  namePrefix :: string
  reqUser :: string
  user :: string
  renameFrom :: string
  minDataPort :: port
  maxDataPort :: port
  pasvAdvertisedIp :: string
  trace :: "event list"

text \<open>The driver interface as \<open>commands.go\<close> calls it. Every operation returns its
  value together with a flag that says whether the returned error is non-nil. A reader
  is its content; \<open>None\<close> is the nil reader. A directory entry is kept abstract.\<close>

type_synonym FileInfo = "string \<times> int \<times> bool"

record FTPDriver =
  Authenticate :: "string \<Rightarrow> string \<Rightarrow> string \<Rightarrow> bool \<times> bool"
  Bytes :: "string \<Rightarrow> int \<times> bool"
  ModifiedTime :: "string \<Rightarrow> nat \<times> bool"
  ChangeDir :: "string \<Rightarrow> bool \<times> bool"
  DirContents :: "string \<Rightarrow> FileInfo list \<times> bool"
  DeleteDir :: "string \<Rightarrow> bool \<times> bool"
  DeleteFile :: "string \<Rightarrow> bool \<times> bool"
  Rename :: "string \<Rightarrow> string \<Rightarrow> bool \<times> bool"
  MakeDir :: "string \<Rightarrow> bool \<times> bool"
  GetFile :: "string \<Rightarrow> string option \<times> bool"
  PutFile :: "string \<Rightarrow> bool \<times> bool"

text \<open>Everything else a handler's result depends on: the addresses of the control
  connection, whether a write on it fails (asked with the number of events so far),
  whether copying to the data socket, dialling, listening or closing fails, the port the
  kernel picks when port 0 is requested, the random source, and the three formatting
  functions that live outside the files at hand (the two listing forms of the list
  formatter and \<open>strftime.Format\<close> with the MDTM layout).\<close>

record environment =
  driver :: FTPDriver
  localIP :: string
  remoteIP :: string
  write_err :: "nat \<Rightarrow> bool"
  copy_err :: bool
  dial_ok :: "string \<Rightarrow> port \<Rightarrow> bool"
  listen_ok :: "port \<Rightarrow> bool"
  os_port :: port
  rand_draw :: "nat \<Rightarrow> nat"
  ctrl_close_err :: bool
  data_close_err :: bool
  Detailed :: "FileInfo list \<Rightarrow> string"
  Short :: "FileInfo list \<Rightarrow> string"
  strftime :: "nat \<Rightarrow> string"

text \<open>How a call ends: it returns nil, it returns an error, it panics (recovered at the
  session boundary), a panic in the listener goroutine ends the process, or it waits for
  ever.\<close>

datatype outcome = RetNil | RetErr | Panic | ProcessExit | Blocked

definition emit :: "event \<Rightarrow> ftpConn \<Rightarrow> ftpConn" where
  "emit e c = c\<lparr>trace := trace c @ [e]\<rparr>"

definition ret :: "bool \<times> ftpConn \<Rightarrow> outcome \<times> ftpConn" where
  "ret r = (if fst r then RetErr else RetNil, snd r)"

section \<open>The connection engine\<close>

text \<open>\<open>writeMessage\<close> and \<open>writeLines\<close>: the line is handed to the control writer; the
  flag returned says whether that failed.\<close>

definition writeMessage :: "environment \<Rightarrow> ftpConn \<Rightarrow> nat \<Rightarrow> string \<Rightarrow> bool \<times> ftpConn" where
  "writeMessage env c code message = (write_err env (length (trace c)), emit (Reply code message) c)"

definition writeLines :: "environment \<Rightarrow> ftpConn \<Rightarrow> nat \<Rightarrow> string list \<Rightarrow> bool \<times> ftpConn" where
  "writeLines env c code lines = (write_err env (length (trace c)), emit (ReplyLines lines) c)"

text \<open>\<open>Close\<close>: the control connection, then the data socket if one is attached.\<close>

definition Close :: "environment \<Rightarrow> ftpConn \<Rightarrow> bool \<times> ftpConn" where
  "Close env c =
     (let c1 = emit CloseControl c
      in if dataConn c \<noteq> None then (ctrl_close_err env \<or> data_close_err env, emit CloseData c1)
         else (ctrl_close_err env, c1))"

definition buildPath :: "ftpConn \<Rightarrow> string \<Rightarrow> string" where
  "buildPath c filename =
     (let fullPath =
        (if length filename > 0 \<and> take 1 filename = [slash] then Clean filename
         else if length filename > 0 then Clean (namePrefix c @ [slash] @ filename)
         else Clean (namePrefix c))
      in ReplaceSlashSlash fullPath)"

subsection \<open>Data sockets\<close>

text \<open>\<open>rand.Intn(n)\<close> panics unless \<open>n\<close> is positive, and otherwise returns a number below
  \<open>n\<close>; \<open>draw\<close> is what the random source yields. \<open>None\<close> is the panic.\<close>

definition Intn :: "int \<Rightarrow> nat \<Rightarrow> int option" where
  "Intn n draw = (if n \<le> 0 then None else Some (int draw mod n))"

text \<open>\<open>randomPort(min, max)\<close>, with \<open>lo\<close> and \<open>hi\<close> for its two parameters: the subtraction is done on 16-bit values, the sum on \<open>int\<close>, and the
  result is cut to 16 bits again.\<close>

definition randomPort :: "port \<Rightarrow> port \<Rightarrow> nat \<Rightarrow> port option" where
  "randomPort lo hi draw =
     (if lo = 0 \<and> hi = 0 then Some 0
      else (case Intn (uint (hi - lo - 1)) draw of
              None \<Rightarrow> None
            | Some r \<Rightarrow> Some (word_of_int (uint lo + r))))"

text \<open>\<open>netListenerInRange\<close>: up to 99 attempts on a random port each.\<close>

datatype listen_result = Listening port | ListenError | ListenPanic

function netListenerInRange :: "environment \<Rightarrow> port \<Rightarrow> port \<Rightarrow> nat \<Rightarrow> listen_result" where
  "netListenerInRange env lo hi retries =
     (if retries < 100 then
        (case randomPort lo hi (rand_draw env retries) of
           None \<Rightarrow> ListenPanic
         | Some p \<Rightarrow> if listen_ok env p then Listening p
                     else netListenerInRange env lo hi (retries + 1))
      else ListenError)"
  by pat_completeness auto
termination
  by (relation "measure (\<lambda>(env, lo, hi, retries). 100 - retries)") auto

declare netListenerInRange.simps [simp del]

text \<open>The package function \<open>newPassiveSocket\<close> starts \<open>ListenAndServe\<close> in a goroutine and
  polls until the socket's port is positive. The goroutine publishes the port of the
  listener's address (the kernel's choice when port 0 was asked for). When listening
  failed no port is ever published and the polling loop does not end; a panic of
  \<open>randomPort\<close> in the goroutine is not recovered by anyone. The error this function
  returns is always nil.\<close>

definition newPassiveSocket_pkg :: "environment \<Rightarrow> string \<Rightarrow> port \<Rightarrow> port \<Rightarrow> outcome + ftpDataSocket" where
  "newPassiveSocket_pkg env listenIP minPort maxPort =
     (case netListenerInRange env minPort maxPort 1 of
        ListenPanic \<Rightarrow> Inl ProcessExit
      | ListenError \<Rightarrow> Inl Blocked
      | Listening p \<Rightarrow>
          (let bound = (if p = 0 then os_port env else p)
           in if bound > 0 then Inr (ftpPassiveSocket listenIP bound) else Inl Blocked))"

text \<open>The package function \<open>newActiveSocket\<close>: resolve and dial; \<open>None\<close> is the error.\<close>

definition newActiveSocket_pkg :: "environment \<Rightarrow> string \<Rightarrow> port \<Rightarrow> ftpDataSocket option" where
  "newActiveSocket_pkg env host p = (if dial_ok env host p then Some (ftpActiveSocket host p) else None)"

definition Host :: "ftpDataSocket \<Rightarrow> string" where
  "Host sock = (case sock of ftpActiveSocket h p \<Rightarrow> h | ftpPassiveSocket h p \<Rightarrow> h)"

definition Port :: "ftpDataSocket \<Rightarrow> port" where
  "Port sock = (case sock of ftpActiveSocket h p \<Rightarrow> p | ftpPassiveSocket h p \<Rightarrow> p)"

definition close_previous :: "ftpConn \<Rightarrow> ftpConn" where
  "close_previous c = (if dataConn c \<noteq> None then (emit CloseData c)\<lparr>dataConn := None\<rparr> else c)"

text \<open>The methods \<open>ftpConn.newPassiveSocket\<close> and \<open>ftpConn.newActiveSocket\<close>: a socket
  that is attached is closed and detached first. \<open>Inr None\<close> is the error return.\<close>

definition newPassiveSocket :: "environment \<Rightarrow> ftpConn \<Rightarrow> outcome + (ftpDataSocket option \<times> ftpConn)" where
  "newPassiveSocket env c =
     (let c1 = close_previous c
      in case newPassiveSocket_pkg env (localIP env) (minDataPort c1) (maxDataPort c1) of
           Inl stuck \<Rightarrow> Inl stuck
         | Inr sock \<Rightarrow> Inr (Some sock, (emit (ListenOn (Host sock) (Port sock)) c1)\<lparr>dataConn := Some sock\<rparr>))"

definition newActiveSocket :: "environment \<Rightarrow> ftpConn \<Rightarrow> string \<Rightarrow> port \<Rightarrow> ftpDataSocket option \<times> ftpConn" where
  "newActiveSocket env c host p =
     (let c1 = emit (Dial host p) (close_previous c)
      in case newActiveSocket_pkg env host p of
           None \<Rightarrow> (None, c1)
         | Some sock \<Rightarrow> (Some sock, c1\<lparr>dataConn := Some sock\<rparr>))"

text \<open>\<open>sendOutOfBandReader\<close>. The deferred call needs the method value of the attached
  socket, so without a socket the function panics at once. The deferred \<open>Close\<close> of the
  data socket runs when the function returns, after everything else it does.\<close>

definition sendOutOfBandReader :: "environment \<Rightarrow> ftpConn \<Rightarrow> string \<Rightarrow> outcome \<times> ftpConn" where
  "sendOutOfBandReader env c reader =
     (if dataConn c = None then (Panic, c)
      else let c1 = emit (CopyToData reader) c
           in if copy_err env then
                (let (e, c2) = writeMessage env c1 550 ''Action not taken''
                 in (RetErr, emit CloseData c2))
              else
                (let (e, c2) = writeMessage env c1 226 ''Transfer complete.''
                 in if e then (RetErr, emit CloseData c2)
                    else (RetNil, emit CloseData (emit Sleep c2))))"

definition sendOutOfBandData :: "environment \<Rightarrow> ftpConn \<Rightarrow> string \<Rightarrow> outcome \<times> ftpConn" where
  "sendOutOfBandData env c data = sendOutOfBandReader env c data"

section \<open>The command handlers\<close>

text \<open>One definition for each \<open>Execute\<close> method of \<open>commands.go\<close>, in the order of the
  file. A handler takes the session and the parameter and returns how it ended together
  with the session it leaves.\<close>

definition driver_called :: "string \<Rightarrow> string list \<Rightarrow> ftpConn \<Rightarrow> ftpConn" where
  "driver_called name args c = emit (DriverCall name args) c"

definition commandAllo_Execute :: "environment \<Rightarrow> ftpConn \<Rightarrow> string \<Rightarrow> outcome \<times> ftpConn" where
  "commandAllo_Execute env c param = ret (writeMessage env c 202 ''Obsolete'')"

definition commandCwd_Execute :: "environment \<Rightarrow> ftpConn \<Rightarrow> string \<Rightarrow> outcome \<times> ftpConn" where
  "commandCwd_Execute env c param =
     (let path = buildPath c param;
          (changeDir, err) = ChangeDir (driver env) path;
          c1 = driver_called ''ChangeDir'' [path] c
      in if err then (RetErr, c1)
         else if changeDir then
           ret (writeMessage env (c1\<lparr>namePrefix := path\<rparr>) 250 (''Directory changed to '' @ path))
         else ret (writeMessage env c1 550 ''Action not taken''))"

definition commandCdup_Execute :: "environment \<Rightarrow> ftpConn \<Rightarrow> string \<Rightarrow> outcome \<times> ftpConn" where
  "commandCdup_Execute env c param = commandCwd_Execute env c ''..''"

definition commandDele_Execute :: "environment \<Rightarrow> ftpConn \<Rightarrow> string \<Rightarrow> outcome \<times> ftpConn" where
  "commandDele_Execute env c param =
     (let path = buildPath c param;
          (deleteFile, err) = DeleteFile (driver env) path;
          c1 = driver_called ''DeleteFile'' [path] c
      in if err then (RetErr, c1)
         else if deleteFile then ret (writeMessage env c1 250 ''File deleted'')
         else ret (writeMessage env c1 550 ''Action not taken''))"

text \<open>EPRT indexes the pieces of the parameter without looking at their number; an index
  out of range is a panic.\<close>

definition commandEprt_Execute :: "environment \<Rightarrow> ftpConn \<Rightarrow> string \<Rightarrow> outcome \<times> ftpConn" where
  "commandEprt_Execute env c param =
     (if length param < 1 then (Panic, c)
      else let delimiter = param ! 0;
               parts = Split delimiter param
           in if length parts \<le> 1 then (Panic, c)
              else case Atoi (parts ! 1) of
                None \<Rightarrow> (RetErr, c)
              | Some addressFamily \<Rightarrow>
                  if length parts \<le> 2 then (Panic, c)
                  else let host = parts ! 2
                       in if length parts \<le> 3 then (Panic, c)
                          else case ParseUint16 (parts ! 3) of
                            None \<Rightarrow> (RetErr, c)
                          | Some p \<Rightarrow>
                              if addressFamily \<noteq> 1 \<and> addressFamily \<noteq> 2 then
                                ret (writeMessage env c 522 ''Network protocol not supported, use (1,2)'')
                              else
                                (case newActiveSocket env c host (of_nat p) of
                                   (None, c1) \<Rightarrow>
                                     (RetErr, snd (writeMessage env c1 425 ''Data connection failed''))
                                 | (Some sock, c1) \<Rightarrow>
                                     ret (writeMessage env c1 200
                                            (''Connection established ('' @ itoa (int p) @ '')''))))"

definition commandEpsv_Execute :: "environment \<Rightarrow> ftpConn \<Rightarrow> string \<Rightarrow> outcome \<times> ftpConn" where
  "commandEpsv_Execute env c param =
     (case newPassiveSocket env c of
        Inl stuck \<Rightarrow> (stuck, close_previous c)
      | Inr (None, c1) \<Rightarrow> (RetErr, snd (writeMessage env c1 425 ''Data connection failed''))
      | Inr (Some sock, c1) \<Rightarrow>
          ret (writeMessage env c1 229
                 (''Entering Extended Passive Mode (|||'' @ itoa (uint (Port sock)) @ ''|)'')))"

definition commandFeat_Execute :: "environment \<Rightarrow> ftpConn \<Rightarrow> string \<Rightarrow> outcome \<times> ftpConn" where
  "commandFeat_Execute env c param =
     ret (writeLines env c 211
            [''211-Features supported:'', '' EPRT'', '' EPSV'', '' MDTM'', '' SIZE'', '' UTF8'',
             ''211 End FEAT.''])"

definition commandList_Execute :: "environment \<Rightarrow> ftpConn \<Rightarrow> string \<Rightarrow> outcome \<times> ftpConn" where
  "commandList_Execute env c param =
     (let (e, c1) = writeMessage env c 150 ''Opening ASCII mode data connection for file list''
      in if e then (RetErr, c1)
         else let param' = (if listFlagsRegexp param then [] else param);
                  path = buildPath c1 param';
                  (files, err) = DirContents (driver env) path;
                  c2 = driver_called ''DirContents'' [path] c1
              in if err then (RetErr, c2)
                 else sendOutOfBandData env c2 (Detailed env files))"

definition commandNlst_Execute :: "environment \<Rightarrow> ftpConn \<Rightarrow> string \<Rightarrow> outcome \<times> ftpConn" where
  "commandNlst_Execute env c param =
     (let (e, c1) = writeMessage env c 150 ''Opening ASCII mode data connection for file list''
      in if e then (RetErr, c1)
         else let param' = (if listFlagsRegexp param then [] else param);
                  path = buildPath c1 param';
                  (files, err) = DirContents (driver env) path;
                  c2 = driver_called ''DirContents'' [path] c1
              in if err then (RetErr, c2)
                 else sendOutOfBandData env c2 (Short env files))"

definition commandMdtm_Execute :: "environment \<Rightarrow> ftpConn \<Rightarrow> string \<Rightarrow> outcome \<times> ftpConn" where
  "commandMdtm_Execute env c param =
     (let path = buildPath c param;
          (time, err) = ModifiedTime (driver env) path;
          c1 = driver_called ''ModifiedTime'' [path] c
      in if err then (RetErr, snd (writeMessage env c1 450 ''File not available''))
         else ret (writeMessage env c1 213 (strftime env time)))"

definition commandMkd_Execute :: "environment \<Rightarrow> ftpConn \<Rightarrow> string \<Rightarrow> outcome \<times> ftpConn" where
  "commandMkd_Execute env c param =
     (let path = buildPath c param;
          (makeDir, err) = MakeDir (driver env) path;
          c1 = driver_called ''MakeDir'' [path] c
      in if err then (RetErr, c1)
         else if makeDir then ret (writeMessage env c1 257 ''Directory created'')
         else ret (writeMessage env c1 550 ''Action not taken''))"

definition commandMode_Execute :: "environment \<Rightarrow> ftpConn \<Rightarrow> string \<Rightarrow> outcome \<times> ftpConn" where
  "commandMode_Execute env c param =
     (if ToUpper_is param ''S'' then ret (writeMessage env c 200 ''OK'')
      else ret (writeMessage env c 504 ''MODE is an obsolete command''))"

definition commandNoop_Execute :: "environment \<Rightarrow> ftpConn \<Rightarrow> string \<Rightarrow> outcome \<times> ftpConn" where
  "commandNoop_Execute env c param = ret (writeMessage env c 200 ''OK'')"

definition commandOpts_Execute :: "environment \<Rightarrow> ftpConn \<Rightarrow> string \<Rightarrow> outcome \<times> ftpConn" where
  "commandOpts_Execute env c param =
     (if param = ''UTF8 ON'' \<or> param = ''UTF8'' then ret (writeMessage env c 200 ''OK'')
      else ret (writeMessage env c 500 ''Command not found''))"

text \<open>PASS: a refusal writes 530 and 221 and closes the connection; the error returned
  collects only what went wrong while doing so.\<close>

definition commandPass_Execute :: "environment \<Rightarrow> ftpConn \<Rightarrow> string \<Rightarrow> outcome \<times> ftpConn" where
  "commandPass_Execute env c param =
     (let (ok, err) = Authenticate (driver env) (reqUser c) param (remoteIP env);
          c1 = driver_called ''Authenticate'' [reqUser c, param, remoteIP env] c
      in if err \<or> \<not> ok then
           (let (e1, c2) = writeMessage env c1 530 ''Incorrect password, not logged in'';
                (e2, c3) = writeMessage env c2 221 ''Goodbye.'';
                (e3, c4) = Close env c3
            in (if e1 \<or> e2 \<or> e3 then RetErr else RetNil, c4))
         else
           ret (writeMessage env (c1\<lparr>user := reqUser c1, reqUser := []\<rparr>) 230 ''Password ok, continue''))"

text \<open>PASV: the two port numbers are computed on 16-bit values; the host is cut at its
  dots and the first four pieces are quoted, a panic if there are fewer.\<close>

definition commandPasv_Execute :: "environment \<Rightarrow> ftpConn \<Rightarrow> string \<Rightarrow> outcome \<times> ftpConn" where
  "commandPasv_Execute env c param =
     (case newPassiveSocket env c of
        Inl stuck \<Rightarrow> (stuck, close_previous c)
      | Inr (None, c1) \<Rightarrow> (RetErr, snd (writeMessage env c1 425 ''Data connection failed''))
      | Inr (Some sock, c1) \<Rightarrow>
          (let p1 = Port sock div 256;
               p2 = Port sock - (p1 * 256);
               host = (if pasvAdvertisedIp c1 = [] then Host sock else pasvAdvertisedIp c1);
               quads = Split (CHR ''.'') host
           in if length quads < 4 then (Panic, c1)
              else let target = ''('' @ quads ! 0 @ '','' @ quads ! 1 @ '','' @ quads ! 2 @ '','' @
                                quads ! 3 @ '','' @ itoa (uint p1) @ '','' @ itoa (uint p2) @ '')'';
                       msg = ''Entering Passive Mode '' @ target
                   in ret (writeMessage env c1 227 msg)))"

definition commandPort_Execute :: "environment \<Rightarrow> ftpConn \<Rightarrow> string \<Rightarrow> outcome \<times> ftpConn" where
  "commandPort_Execute env c param =
     (let nums = Split (CHR '','') param
      in if length nums < 6 then ret (writeMessage env c 425 ''Data connection failed'')
         else case ParseUint16 (nums ! 4) of
           None \<Rightarrow> (RetErr, c)
         | Some portOne \<Rightarrow>
             (case ParseUint16 (nums ! 5) of
                None \<Rightarrow> (RetErr, c)
              | Some portTwo \<Rightarrow>
                  (let p = (of_nat (portOne * 256 + portTwo) :: port);
                       host = nums ! 0 @ ''.'' @ nums ! 1 @ ''.'' @ nums ! 2 @ ''.'' @ nums ! 3
                   in case newActiveSocket env c host p of
                        (None, c1) \<Rightarrow> (RetErr, snd (writeMessage env c1 425 ''Data connection failed''))
                      | (Some sock, c1) \<Rightarrow>
                          ret (writeMessage env c1 200
                                 (''Connection established ('' @ itoa (uint p) @ '')'')))))"

definition commandPwd_Execute :: "environment \<Rightarrow> ftpConn \<Rightarrow> string \<Rightarrow> outcome \<times> ftpConn" where
  "commandPwd_Execute env c param =
     ret (writeMessage env c 257 ([CHR 0x22] @ namePrefix c @ [CHR 0x22] @ '' is the current directory''))"

definition commandQuit_Execute :: "environment \<Rightarrow> ftpConn \<Rightarrow> string \<Rightarrow> outcome \<times> ftpConn" where
  "commandQuit_Execute env c param = ret (Close env c)"

text \<open>RETR: the reader the driver returns is closed by a deferred call, which runs also
  when sending panics; a nil reader without an error panics at the \<open>defer\<close>.\<close>

definition commandRetr_Execute :: "environment \<Rightarrow> ftpConn \<Rightarrow> string \<Rightarrow> outcome \<times> ftpConn" where
  "commandRetr_Execute env c param =
     (let path = buildPath c param;
          (reader, err) = GetFile (driver env) path;
          c1 = driver_called ''GetFile'' [path] c
      in if err then (RetErr, snd (writeMessage env c1 551 ''File not available''))
         else case reader of
           None \<Rightarrow> (Panic, c1)
         | Some content \<Rightarrow>
             (let (e, c2) = writeMessage env c1 150 ''Data connection open. Transfer starting.''
              in if e then (RetErr, emit CloseReader c2)
                 else let (res, c3) = sendOutOfBandReader env c2 content
                      in (res, emit CloseReader c3)))"

definition commandRnfr_Execute :: "environment \<Rightarrow> ftpConn \<Rightarrow> string \<Rightarrow> outcome \<times> ftpConn" where
  "commandRnfr_Execute env c param =
     ret (writeMessage env (c\<lparr>renameFrom := buildPath c param\<rparr>) 350
            ''Requested file action pending further information.'')"

definition commandRnto_Execute :: "environment \<Rightarrow> ftpConn \<Rightarrow> string \<Rightarrow> outcome \<times> ftpConn" where
  "commandRnto_Execute env c param =
     (if renameFrom c = [] then
        ret (writeMessage env c 503 ''Bad sequence of commands: use RNFR first.'')
      else let toPath = buildPath c param;
               (rename, err) = Rename (driver env) (renameFrom c) toPath;
               c1 = driver_called ''Rename'' [renameFrom c, toPath] c
           in if err then (RetErr, c1)
              else if rename then ret (writeMessage env c1 250 ''File renamed'')
              else ret (writeMessage env c1 550 ''Action not taken''))"

definition commandRmd_Execute :: "environment \<Rightarrow> ftpConn \<Rightarrow> string \<Rightarrow> outcome \<times> ftpConn" where
  "commandRmd_Execute env c param =
     (let path = buildPath c param;
          (deleteDir, err) = DeleteDir (driver env) path;
          c1 = driver_called ''DeleteDir'' [path] c
      in if err then (RetErr, c1)
         else if deleteDir then ret (writeMessage env c1 250 ''Directory deleted'')
         else ret (writeMessage env c1 550 ''Action not taken''))"

definition commandSize_Execute :: "environment \<Rightarrow> ftpConn \<Rightarrow> string \<Rightarrow> outcome \<times> ftpConn" where
  "commandSize_Execute env c param =
     (let path = buildPath c param;
          (bytes, err) = Bytes (driver env) path;
          c1 = driver_called ''Bytes'' [path] c
      in if err then (RetErr, c1)
         else if bytes \<ge> 0 then ret (writeMessage env c1 213 (itoa bytes))
         else ret (writeMessage env c1 450 ''file not available''))"

text \<open>STOR hands the attached data socket to the driver as the reader and does not close
  it.\<close>

definition commandStor_Execute :: "environment \<Rightarrow> ftpConn \<Rightarrow> string \<Rightarrow> outcome \<times> ftpConn" where
  "commandStor_Execute env c param =
     (let targetPath = buildPath c param;
          (e, c1) = writeMessage env c 150 ''Data transfer starting''
      in if e then (RetErr, c1)
         else let (putFile, err) = PutFile (driver env) targetPath;
                  c2 = driver_called ''PutFile'' [targetPath] c1
              in if err then (RetErr, c2)
                 else if putFile then ret (writeMessage env c2 226 ''Transfer complete.'')
                 else ret (writeMessage env c2 450 ''error during transfer''))"

definition commandStru_Execute :: "environment \<Rightarrow> ftpConn \<Rightarrow> string \<Rightarrow> outcome \<times> ftpConn" where
  "commandStru_Execute env c param =
     (if ToUpper_is param ''F'' then ret (writeMessage env c 200 ''OK'')
      else ret (writeMessage env c 504 ''STRU is an obsolete command''))"

definition commandSyst_Execute :: "environment \<Rightarrow> ftpConn \<Rightarrow> string \<Rightarrow> outcome \<times> ftpConn" where
  "commandSyst_Execute env c param = ret (writeMessage env c 215 ''UNIX Type: L8'')"

definition commandType_Execute :: "environment \<Rightarrow> ftpConn \<Rightarrow> string \<Rightarrow> outcome \<times> ftpConn" where
  "commandType_Execute env c param =
     (if ToUpper_is param ''A'' then ret (writeMessage env c 200 ''Type set to ASCII'')
      else if ToUpper_is param ''I'' then ret (writeMessage env c 200 ''Type set to binary'')
      else ret (writeMessage env c 500 ''Invalid type''))"

definition commandUser_Execute :: "environment \<Rightarrow> ftpConn \<Rightarrow> string \<Rightarrow> outcome \<times> ftpConn" where
  "commandUser_Execute env c param =
     ret (writeMessage env (c\<lparr>reqUser := param\<rparr>) 331 ''User name ok, password required'')"

section \<open>The command table and the dispatch\<close>

datatype ftpCommand =
    commandAllo | commandCdup | commandCwd | commandDele | commandEprt | commandEpsv
  | commandFeat | commandList | commandNlst | commandMdtm | commandMkd | commandMode
  | commandNoop | commandOpts | commandPass | commandPasv | commandPort | commandPwd
  | commandQuit | commandRetr | commandRnfr | commandRnto | commandRmd | commandSize
  | commandStor | commandStru | commandSyst | commandType | commandUser

definition commandMap :: "(string \<times> ftpCommand) list" where
  "commandMap =
     [(''ALLO'', commandAllo), (''CDUP'', commandCdup), (''CWD'', commandCwd),
      (''DELE'', commandDele), (''EPRT'', commandEprt), (''EPSV'', commandEpsv),
      (''FEAT'', commandFeat), (''LIST'', commandList), (''NLST'', commandNlst),
      (''MDTM'', commandMdtm), (''MKD'', commandMkd), (''MODE'', commandMode),
      (''NOOP'', commandNoop), (''OPTS'', commandOpts), (''PASS'', commandPass),
      (''PASV'', commandPasv), (''PORT'', commandPort), (''PWD'', commandPwd),
      (''QUIT'', commandQuit), (''RETR'', commandRetr), (''RNFR'', commandRnfr),
      (''RNTO'', commandRnto), (''RMD'', commandRmd), (''SIZE'', commandSize),
      (''STOR'', commandStor), (''STRU'', commandStru), (''SYST'', commandSyst),
      (''TYPE'', commandType), (''USER'', commandUser), (''XCUP'', commandCdup),
      (''XCWD'', commandCwd), (''XPWD'', commandPwd), (''XRMD'', commandRmd)]"

definition commands :: "string \<Rightarrow> ftpCommand option" where
  "commands = map_of commandMap"

fun RequireParam :: "ftpCommand \<Rightarrow> bool" where
  "RequireParam commandAllo = False"
| "RequireParam commandCdup = False"
| "RequireParam commandCwd = True"
| "RequireParam commandDele = True"
| "RequireParam commandEprt = True"
| "RequireParam commandEpsv = False"
| "RequireParam commandFeat = False"
| "RequireParam commandList = False"
| "RequireParam commandNlst = False"
| "RequireParam commandMdtm = True"
| "RequireParam commandMkd = True"
| "RequireParam commandMode = True"
| "RequireParam commandNoop = False"
| "RequireParam commandOpts = False"
| "RequireParam commandPass = True"
| "RequireParam commandPasv = False"
| "RequireParam commandPort = True"
| "RequireParam commandPwd = False"
| "RequireParam commandQuit = False"
| "RequireParam commandRetr = True"
| "RequireParam commandRnfr = True"
| "RequireParam commandRnto = True"
| "RequireParam commandRmd = True"
| "RequireParam commandSize = True"
| "RequireParam commandStor = True"
| "RequireParam commandStru = True"
| "RequireParam commandSyst = False"
| "RequireParam commandType = False"
| "RequireParam commandUser = True"

fun RequireAuth :: "ftpCommand \<Rightarrow> bool" where
  "RequireAuth commandAllo = False"
| "RequireAuth commandCdup = True"
| "RequireAuth commandCwd = True"
| "RequireAuth commandDele = True"
| "RequireAuth commandEprt = True"
| "RequireAuth commandEpsv = True"
| "RequireAuth commandFeat = False"
| "RequireAuth commandList = True"
| "RequireAuth commandNlst = True"
| "RequireAuth commandMdtm = True"
| "RequireAuth commandMkd = True"
| "RequireAuth commandMode = True"
| "RequireAuth commandNoop = False"
| "RequireAuth commandOpts = True"
| "RequireAuth commandPass = False"
| "RequireAuth commandPasv = True"
| "RequireAuth commandPort = True"
| "RequireAuth commandPwd = True"
| "RequireAuth commandQuit = False"
| "RequireAuth commandRetr = True"
| "RequireAuth commandRnfr = True"
| "RequireAuth commandRnto = True"
| "RequireAuth commandRmd = True"
| "RequireAuth commandSize = True"
| "RequireAuth commandStor = True"
| "RequireAuth commandStru = True"
| "RequireAuth commandSyst = True"
| "RequireAuth commandType = True"
| "RequireAuth commandUser = False"

fun Execute :: "ftpCommand \<Rightarrow> environment \<Rightarrow> ftpConn \<Rightarrow> string \<Rightarrow> outcome \<times> ftpConn" where
  "Execute commandAllo = commandAllo_Execute"
| "Execute commandCdup = commandCdup_Execute"
| "Execute commandCwd = commandCwd_Execute"
| "Execute commandDele = commandDele_Execute"
| "Execute commandEprt = commandEprt_Execute"
| "Execute commandEpsv = commandEpsv_Execute"
| "Execute commandFeat = commandFeat_Execute"
| "Execute commandList = commandList_Execute"
| "Execute commandNlst = commandNlst_Execute"
| "Execute commandMdtm = commandMdtm_Execute"
| "Execute commandMkd = commandMkd_Execute"
| "Execute commandMode = commandMode_Execute"
| "Execute commandNoop = commandNoop_Execute"
| "Execute commandOpts = commandOpts_Execute"
| "Execute commandPass = commandPass_Execute"
| "Execute commandPasv = commandPasv_Execute"
| "Execute commandPort = commandPort_Execute"
| "Execute commandPwd = commandPwd_Execute"
| "Execute commandQuit = commandQuit_Execute"
| "Execute commandRetr = commandRetr_Execute"
| "Execute commandRnfr = commandRnfr_Execute"
| "Execute commandRnto = commandRnto_Execute"
| "Execute commandRmd = commandRmd_Execute"
| "Execute commandSize = commandSize_Execute"
| "Execute commandStor = commandStor_Execute"
| "Execute commandStru = commandStru_Execute"
| "Execute commandSyst = commandSyst_Execute"
| "Execute commandType = commandType_Execute"
| "Execute commandUser = commandUser_Execute"

text \<open>\<open>receiveLine\<close>: unknown command, then missing parameter, then missing login, in
  this order; only then the handler runs.\<close>

definition receiveLine :: "environment \<Rightarrow> ftpConn \<Rightarrow> string \<Rightarrow> outcome \<times> ftpConn" where
  "receiveLine env c line =
     (let (command, param) = parseLine line
      in case commands command of
           None \<Rightarrow> ret (writeMessage env c 500 ''Command not found'')
         | Some cmdObj \<Rightarrow>
             if RequireParam cmdObj \<and> param = [] then
               ret (writeMessage env c 553 ''action aborted, required param missing'')
             else if RequireAuth cmdObj \<and> user c = [] then
               ret (writeMessage env c 530 ''not logged in'')
             else Execute cmdObj env c param)"

text \<open>\<open>Serve\<close>: the greeting, then one \<open>receiveLine\<close> for every line the control reader
  delivers (the list holds the lines read before the first read error). An error that a
  handler returns is logged and the loop goes on; a panic leaves the loop and is
  recovered by the deferred function, which closes the connection in every case in
  which \<open>Serve\<close> returns at all.\<close>

fun serve_loop :: "environment \<Rightarrow> ftpConn \<Rightarrow> string list \<Rightarrow> outcome \<times> ftpConn" where
  "serve_loop env c [] = (RetNil, c)"
| "serve_loop env c (line # rest) =
     (case receiveLine env c line of
        (RetNil, c1) \<Rightarrow> serve_loop env c1 rest
      | (RetErr, c1) \<Rightarrow> serve_loop env c1 rest
      | (stopped, c1) \<Rightarrow> (stopped, c1))"

definition Serve :: "environment \<Rightarrow> ftpConn \<Rightarrow> string list \<Rightarrow> outcome \<times> ftpConn" where
  "Serve env c lines =
     (let (e, c1) = writeMessage env c 220 (serverName c)
      in if e then (RetErr, snd (Close env c1))
         else case serve_loop env c1 lines of
                (Panic, c2) \<Rightarrow> (RetNil, snd (Close env c2))
              | (ProcessExit, c2) \<Rightarrow> (ProcessExit, c2)
              | (Blocked, c2) \<Rightarrow> (Blocked, c2)
              | (res, c2) \<Rightarrow> (RetNil, snd (Close env c2)))"

text \<open>\<open>newFtpConn\<close>: a fresh session starts in the root directory with no user.\<close>

definition newFtpConn :: "string \<Rightarrow> string \<Rightarrow> port \<Rightarrow> port \<Rightarrow> string \<Rightarrow> ftpConn" where
  "newFtpConn sid name minPort maxPort advertised =
     \<lparr>dataConn = None, serverName = name, sessionId = sid, namePrefix = [slash],
      reqUser = [], user = [], renameFrom = [], minDataPort = minPort, maxDataPort = maxPort,
      pasvAdvertisedIp = advertised, trace = []\<rparr>"

section \<open>A concrete driver, environment and session\<close>

text \<open>A small driver in the manner of the in-memory example driver: one account, two
  directories, one file. It is used to run the engine on concrete lines.\<close>

definition crlf :: string where
  "crlf = [CHR 0x0D, CHR 0x0A]"

definition demoDriver :: FTPDriver where
  "demoDriver =
     \<lparr>Authenticate = (\<lambda>u p ip. (u = ''test'' \<and> p = ''1234'', False)),
      Bytes = (\<lambda>path. (if path = ''/one.txt'' then 5 else - 1, False)),
      ModifiedTime = (\<lambda>path. (0, False)),
      ChangeDir = (\<lambda>path. (path = ''/'' \<or> path = ''/files'', False)),
      DirContents = (\<lambda>path. (if path = ''/'' then [(''files'', 0, True), (''one.txt'', 5, False)] else [], False)),
      DeleteDir = (\<lambda>path. (False, False)),
      DeleteFile = (\<lambda>path. (False, False)),
      Rename = (\<lambda>fromPath toPath. (True, False)),
      MakeDir = (\<lambda>path. (False, False)),
      GetFile = (\<lambda>path. (if path = ''/one.txt'' then Some ''hello'' else None, False)),
      PutFile = (\<lambda>path. (True, False))\<rparr>"

definition demoEnv :: environment where
  "demoEnv =
     \<lparr>driver = demoDriver, localIP = ''10.0.0.5'', remoteIP = ''10.0.0.9'',
      write_err = (\<lambda>n. False), copy_err = False, dial_ok = (\<lambda>h p. True),
      listen_ok = (\<lambda>p. True), os_port = 40000, rand_draw = (\<lambda>n. 7),
      ctrl_close_err = False, data_close_err = False,
      Detailed = (\<lambda>files. concat (map (\<lambda>f. fst f @ crlf) files)),
      Short = (\<lambda>files. concat (map (\<lambda>f. fst f @ crlf) files)),
      strftime = (\<lambda>t. ''19700101000000'')\<rparr>"

definition demoConn :: ftpConn where
  "demoConn = newFtpConn ''0123456789abcdef0123'' ''graval'' 60200 60300 []"

definition demoAuth :: ftpConn where
  "demoAuth = demoConn\<lparr>user := ''test''\<rparr>"

definition demoData :: ftpConn where
  "demoData = demoAuth\<lparr>dataConn := Some (ftpPassiveSocket ''10.0.0.5'' 60207)\<rparr>"

text \<open>The same environment, except that the write on the control connection fails when
  three events have happened before it.\<close>

definition demoEnvLostReply :: environment where
  "demoEnvLostReply = demoEnv\<lparr>write_err := (\<lambda>n. n = 3)\<rparr>"

section \<open>Notions used in the statements\<close>

text \<open>The events a handler added to the trace of the session it started from.\<close>

definition new_events :: "ftpConn \<Rightarrow> ftpConn \<Rightarrow> event list" where
  "new_events c c' = drop (length (trace c)) (trace c')"

text \<open>The events before the first occurrence of an event, and those from it on.\<close>

definition before_first :: "event \<Rightarrow> event list \<Rightarrow> event list" where
  "before_first e evs = takeWhile (\<lambda>x. x \<noteq> e) evs"

definition from_first :: "event \<Rightarrow> event list \<Rightarrow> event list" where
  "from_first e evs = dropWhile (\<lambda>x. x \<noteq> e) evs"

definition is_copy :: "event \<Rightarrow> bool" where
  "is_copy e = (case e of CopyToData d \<Rightarrow> True | _ \<Rightarrow> False)"

text \<open>The shape of a completed transfer: some data was copied to the data socket before
  the reply 226, the data socket was not closed before that reply, and it is closed after
  it.\<close>

definition transfer_complete :: event where
  "transfer_complete = Reply 226 ''Transfer complete.''"

definition copied_replied_closed :: "event list \<Rightarrow> bool" where
  "copied_replied_closed evs =
     (list_ex is_copy (before_first transfer_complete evs)
      \<and> CloseData \<notin> set (before_first transfer_complete evs)
      \<and> CloseData \<in> set (from_first transfer_complete evs))"

text \<open>A proper path element: not empty, neither \<open>.\<close> nor \<open>..\<close>, and without a slash.\<close>

definition proper_element :: "string \<Rightarrow> bool" where
  "proper_element e = (e \<noteq> [] \<and> e \<noteq> ''.'' \<and> e \<noteq> ''..'' \<and> slash \<notin> set e)"

text \<open>A string in which no slash follows a slash.\<close>

fun no_double_slash :: "string \<Rightarrow> bool" where
  "no_double_slash (a # b # cs) = (\<not> (a = slash \<and> b = slash) \<and> no_double_slash (b # cs))"
| "no_double_slash cs = True"

text \<open>A control line without the CR and LF bytes at its two ends.\<close>

definition stripped :: "string \<Rightarrow> string" where
  "stripped line = Trim line [CHR 0x0D, CHR 0x0A]"

definition is_lower :: "char \<Rightarrow> bool" where
  "is_lower ch = (97 \<le> (of_char ch :: nat) \<and> (of_char ch :: nat) \<le> 122)"

text \<open>The components of a path: what lies between its slashes.\<close>

definition components :: "string \<Rightarrow> string list" where
  "components path = Split slash path"

section \<open>Basic facts about the engine\<close>

lemma writeMessage_eq:
  "writeMessage env c code msg =
     (write_err env (length (trace c)), c\<lparr>trace := trace c @ [Reply code msg]\<rparr>)"
  by (simp add: writeMessage_def emit_def)

lemma ret_writeMessage:
  "ret (writeMessage env c code msg) =
     (if write_err env (length (trace c)) then RetErr else RetNil,
      c\<lparr>trace := trace c @ [Reply code msg]\<rparr>)"
  by (simp add: ret_def writeMessage_def emit_def)

lemma Close_eq:
  "Close env c =
     (ctrl_close_err env \<or> (dataConn c \<noteq> None \<and> data_close_err env),
      c\<lparr>trace := trace c @ CloseControl # (if dataConn c \<noteq> None then [CloseData] else [])\<rparr>)"
  by (simp add: Close_def emit_def Let_def)

lemma receiveLine_parsed:
  "parseLine line = (command, param) \<Longrightarrow>
   receiveLine env c line =
     (case commands command of
        None \<Rightarrow> ret (writeMessage env c 500 ''Command not found'')
      | Some cmdObj \<Rightarrow>
          if RequireParam cmdObj \<and> param = [] then
            ret (writeMessage env c 553 ''action aborted, required param missing'')
          else if RequireAuth cmdObj \<and> user c = [] then
            ret (writeMessage env c 530 ''not logged in'')
          else Execute cmdObj env c param)"
  by (simp add: receiveLine_def)

lemma demoConn_fields:
  "trace demoConn = []" "dataConn demoConn = None" "user demoConn = []"
  "reqUser demoConn = []" "renameFrom demoConn = []" "namePrefix demoConn = [slash]"
  "pasvAdvertisedIp demoConn = []" "minDataPort demoConn = 60200" "maxDataPort demoConn = 60300"
  by (simp_all add: demoConn_def newFtpConn_def)

lemma demoAuth_fields:
  "trace demoAuth = []" "dataConn demoAuth = None" "user demoAuth = ''test''"
  "reqUser demoAuth = []" "renameFrom demoAuth = []" "namePrefix demoAuth = [slash]"
  by (simp_all add: demoAuth_def demoConn_fields)

lemma demoEnv_fields:
  "write_err demoEnv n = False" "remoteIP demoEnv = ''10.0.0.9''" "localIP demoEnv = ''10.0.0.5''"
  "copy_err demoEnv = False" "ctrl_close_err demoEnv = False" "data_close_err demoEnv = False"
  "driver demoEnv = demoDriver"
  by (simp_all add: demoEnv_def)

section \<open>The authentication gate\<close>

text \<open>C1, as amended: for every command of the table that requires authentication, a line
  that names it, on a session whose \<open>user\<close> is empty and with a parameter that is not
  empty if the command requires one, is answered by the single reply 530; no driver
  operation is called and nothing but the trace of the session changes.\<close>

theorem auth_gate:
  "commands command = Some cmdObj \<Longrightarrow> RequireAuth cmdObj \<Longrightarrow>
   parseLine line = (command, param) \<Longrightarrow> user c = [] \<Longrightarrow>
   (RequireParam cmdObj \<longrightarrow> param \<noteq> []) \<Longrightarrow>
   receiveLine env c line =
     (if write_err env (length (trace c)) then RetErr else RetNil,
      c\<lparr>trace := trace c @ [Reply 530 ''not logged in'']\<rparr>)"
  by (auto simp: receiveLine_def ret_writeMessage)

theorem auth_gate_witness:
  "receiveLine demoEnv demoConn (''CWD /files'' @ crlf) =
     (RetNil, demoConn\<lparr>trace := [Reply 530 ''not logged in'']\<rparr>)"
proof -
  have p: "parseLine (''CWD /files'' @ crlf) = (''CWD'', ''/files'')"
    by code_simp
  have k: "commands ''CWD'' = Some commandCwd"
    by (simp add: commands_def commandMap_def)
  from auth_gate [OF k _ p demoConn_fields(3), of demoEnv] show ?thesis
    by (simp add: demoConn_fields demoEnv_fields)
qed

text \<open>The claim as it was stated fails where the command also requires a parameter and
  the line has none: the missing parameter is reported first, with 553.\<close>

theorem auth_gate_counterexample:
  "commands ''CWD'' = Some commandCwd \<and> RequireAuth commandCwd \<and> user demoConn = []
   \<and> parseLine (''CWD'' @ crlf) = (''CWD'', [])
   \<and> receiveLine demoEnv demoConn (''CWD'' @ crlf) =
       (RetNil, demoConn\<lparr>trace := [Reply 553 ''action aborted, required param missing'']\<rparr>)"
proof -
  have p: "parseLine (''CWD'' @ crlf) = (''CWD'', [])"
    by code_simp
  have k: "commands ''CWD'' = Some commandCwd"
    by (simp add: commands_def commandMap_def)
  have "receiveLine demoEnv demoConn (''CWD'' @ crlf) =
       (RetNil, demoConn\<lparr>trace := [Reply 553 ''action aborted, required param missing'']\<rparr>)"
    by (simp only: receiveLine_parsed [OF p])
       (simp add: k demoConn_fields demoEnv_fields ret_writeMessage)
  with p k show ?thesis
    by (simp add: demoConn_fields)
qed

section \<open>USER and PASS\<close>

text \<open>C10: USER with a parameter sets \<open>req_user\<close> to it and replies 331; every other field
  of the session keeps its value, \<open>user\<close> among them, so a session that was
  authenticated stays so. A line whose command is USER and whose parameter is not empty
  reaches this handler in every session state.\<close>

theorem user_command_frame:
  "commandUser_Execute env c param =
     (if write_err env (length (trace c)) then RetErr else RetNil,
      c\<lparr>reqUser := param, trace := trace c @ [Reply 331 ''User name ok, password required'']\<rparr>)
   \<and> user (snd (commandUser_Execute env c param)) = user c
   \<and> (param \<noteq> [] \<and> parseLine line = (''USER'', param) \<longrightarrow>
        receiveLine env c line = commandUser_Execute env c param)"
  by (simp add: commandUser_Execute_def ret_writeMessage receiveLine_def commands_def commandMap_def)

theorem user_command_frame_witness:
  "receiveLine demoEnv demoAuth (''USER bob'' @ crlf) =
     (RetNil, demoAuth\<lparr>reqUser := ''bob'', trace := [Reply 331 ''User name ok, password required'']\<rparr>)
   \<and> user (snd (receiveLine demoEnv demoAuth (''USER bob'' @ crlf))) = ''test''"
proof -
  have p: "parseLine (''USER bob'' @ crlf) = (''USER'', ''bob'')"
    by code_simp
  from user_command_frame [of demoEnv demoAuth "''bob''" "''USER bob'' @ crlf"] p
  show ?thesis by (simp add: demoAuth_fields demoEnv_fields)
qed

text \<open>C3: PASS asks the driver with the pending user name, the parameter and the remote
  address. If the driver accepts without an error, \<open>user\<close> becomes the pending name,
  \<open>req_user\<close> is cleared and 230 is written. Otherwise 530 is written, then 221, then the
  connection is closed (and the data socket with it, if one is attached), and \<open>user\<close> is
  what it was, so it remains empty.\<close>

theorem pass_command:
  "(Authenticate (driver env) (reqUser c) param (remoteIP env) = (True, False) \<longrightarrow>
      snd (commandPass_Execute env c param) =
        c\<lparr>user := reqUser c, reqUser := [],
          trace := trace c @ [DriverCall ''Authenticate'' [reqUser c, param, remoteIP env],
                              Reply 230 ''Password ok, continue'']\<rparr>)
   \<and> (Authenticate (driver env) (reqUser c) param (remoteIP env) \<noteq> (True, False) \<longrightarrow>
      snd (commandPass_Execute env c param) =
        c\<lparr>trace := trace c @ [DriverCall ''Authenticate'' [reqUser c, param, remoteIP env],
                              Reply 530 ''Incorrect password, not logged in'',
                              Reply 221 ''Goodbye.'', CloseControl]
                           @ (if dataConn c \<noteq> None then [CloseData] else [])\<rparr>
      \<and> user (snd (commandPass_Execute env c param)) = user c)"
  by (cases "Authenticate (driver env) (reqUser c) param (remoteIP env)")
     (auto simp: commandPass_Execute_def ret_def writeMessage_eq Close_eq
                 driver_called_def emit_def Let_def)

theorem pass_command_witness:
  "snd (commandPass_Execute demoEnv (demoConn\<lparr>reqUser := ''test''\<rparr>) ''1234'') =
     demoConn\<lparr>user := ''test'', reqUser := [],
       trace := [DriverCall ''Authenticate'' [''test'', ''1234'', ''10.0.0.9''],
                 Reply 230 ''Password ok, continue'']\<rparr>
   \<and> snd (commandPass_Execute demoEnv (demoConn\<lparr>reqUser := ''test''\<rparr>) ''12'') =
     demoConn\<lparr>reqUser := ''test'',
       trace := [DriverCall ''Authenticate'' [''test'', ''12'', ''10.0.0.9''],
                 Reply 530 ''Incorrect password, not logged in'',
                 Reply 221 ''Goodbye.'', CloseControl]\<rparr>
   \<and> user (snd (commandPass_Execute demoEnv (demoConn\<lparr>reqUser := ''test''\<rparr>) ''12'')) = []"
proof -
  have a: "Authenticate (driver demoEnv) ''test'' ''1234'' (remoteIP demoEnv) = (True, False)"
          "Authenticate (driver demoEnv) ''test'' ''12'' (remoteIP demoEnv) \<noteq> (True, False)"
    by (simp_all add: demoEnv_def demoDriver_def)
  from pass_command [of demoEnv "demoConn\<lparr>reqUser := ''test''\<rparr>" "''1234''"]
       pass_command [of demoEnv "demoConn\<lparr>reqUser := ''test''\<rparr>" "''12''"] a
  show ?thesis by (simp add: demoConn_fields demoEnv_fields)
qed

section \<open>RNTO\<close>

text \<open>C4: RNTO with an empty \<open>rename_from\<close> replies 503 without a driver call, and otherwise
  calls \<open>Rename\<close> and replies 250 or 550; the claim adds that \<open>rename_from\<close> is empty
  afterwards. The handler never assigns \<open>renameFrom\<close>: it leaves the field as it found it
  for every environment, session and parameter. On the concrete session a second RNTO,
  with no RNFR before it, is therefore not refused with 503 but renames \<open>/a\<close> once more.\<close>

theorem rnto_does_not_consume:
  "renameFrom (snd (commandRnto_Execute env c param)) = renameFrom c
   \<and> serve_loop demoEnv demoAuth [''RNFR /a'' @ crlf, ''RNTO /b'' @ crlf, ''RNTO /c'' @ crlf] =
       (RetNil,
        demoAuth\<lparr>renameFrom := ''/a'',
          trace := [Reply 350 ''Requested file action pending further information.'',
                    DriverCall ''Rename'' [''/a'', ''/b''], Reply 250 ''File renamed'',
                    DriverCall ''Rename'' [''/a'', ''/c''], Reply 250 ''File renamed'']\<rparr>)"
proof -
  have g: "renameFrom (snd (commandRnto_Execute env c param)) = renameFrom c"
    by (cases "Rename (driver env) (renameFrom c) (buildPath c param)")
       (simp add: commandRnto_Execute_def ret_writeMessage driver_called_def emit_def Let_def)
  have r: "serve_loop demoEnv demoAuth [''RNFR /a'' @ crlf, ''RNTO /b'' @ crlf, ''RNTO /c'' @ crlf] =
       (RetNil,
        demoAuth\<lparr>renameFrom := ''/a'',
          trace := [Reply 350 ''Requested file action pending further information.'',
                    DriverCall ''Rename'' [''/a'', ''/b''], Reply 250 ''File renamed'',
                    DriverCall ''Rename'' [''/a'', ''/c''], Reply 250 ''File renamed'']\<rparr>)"
    by code_simp
  from g r show ?thesis by simp
qed

section \<open>EPRT\<close>

text \<open>C9: the claim is that EPRT ends normally on every parameter and that the session
  goes on. The handler indexes the pieces of the parameter without a look at how many
  there are: on \<open>|1\<close> it panics, \<open>Serve\<close> recovers and closes the connection, and the
  NOOP that follows is never answered. A protocol field that is not a number makes the
  handler return the parse error with no reply at all. PORT, next to it, checks the
  number of its pieces and answers 425, after which the session goes on.\<close>

theorem eprt_short_parameter_panics:
  "commandEprt_Execute env c ''|1'' = (Panic, c)
   \<and> commandEprt_Execute env c ''|x|10.0.0.9|2021|'' = (RetErr, c)
   \<and> Serve demoEnv demoAuth [''EPRT |1'' @ crlf, ''NOOP'' @ crlf] =
       (RetNil, demoAuth\<lparr>trace := [Reply 220 ''graval'', CloseControl]\<rparr>)
   \<and> Serve demoEnv demoAuth [''PORT 1'' @ crlf, ''NOOP'' @ crlf] =
       (RetNil, demoAuth\<lparr>trace := [Reply 220 ''graval'', Reply 425 ''Data connection failed'',
                                     Reply 200 ''OK'', CloseControl]\<rparr>)"
proof -
  have a: "commandEprt_Execute env c ''|1'' = (Panic, c)"
    by (simp add: commandEprt_Execute_def Atoi_def is_digit_def digits_value_def)
  have b: "commandEprt_Execute env c ''|x|10.0.0.9|2021|'' = (RetErr, c)"
    by (simp add: commandEprt_Execute_def Atoi_def is_digit_def)
  have s: "Serve demoEnv demoAuth [''EPRT |1'' @ crlf, ''NOOP'' @ crlf] =
       (RetNil, demoAuth\<lparr>trace := [Reply 220 ''graval'', CloseControl]\<rparr>)"
    by code_simp
  have t: "Serve demoEnv demoAuth [''PORT 1'' @ crlf, ''NOOP'' @ crlf] =
       (RetNil, demoAuth\<lparr>trace := [Reply 220 ''graval'', Reply 425 ''Data connection failed'',
                                     Reply 200 ''OK'', CloseControl]\<rparr>)"
    by code_simp
  from a b s t show ?thesis by simp
qed

section \<open>The passive port\<close>

lemma uint_minus_one_16: "uint (- 1 :: 16 word) = 65535"
  by (simp add: uint_word_ariths)

text \<open>C8: the claim is that \<open>randomPort\<close> returns a port of \<open>[min, max)\<close> for every range
  other than \<open>[0, 0]\<close> and is total. The function draws below \<open>max - min - 1\<close>, computed
  on 16 bits: with \<open>max = min + 1\<close> the bound is 0 and \<open>rand.Intn\<close> panics whatever the
  random source yields; with \<open>max = min\<close> the bound wraps around to 65535 and the port
  returned lies anywhere, above the range or, after the cut to 16 bits, below it.\<close>

theorem randomPort_adjacent_bounds_panics:
  "randomPort lo (lo + 1) draw = None
   \<and> randomPort 5000 5001 draw = None
   \<and> randomPort 5000 5000 60000 = Some 65000
   \<and> randomPort 5000 5000 65534 = Some 4998"
  by (simp add: randomPort_def Intn_def uint_minus_one_16)

section \<open>Data transfers\<close>

lemma sendOutOfBandReader_trace:
  "sendOutOfBandReader env c r =
     (if dataConn c = None then (Panic, c)
      else if copy_err env then
        (RetErr, c\<lparr>trace := trace c @ [CopyToData r, Reply 550 ''Action not taken'', CloseData]\<rparr>)
      else if write_err env (Suc (length (trace c))) then
        (RetErr, c\<lparr>trace := trace c @ [CopyToData r, Reply 226 ''Transfer complete.'', CloseData]\<rparr>)
      else
        (RetNil, c\<lparr>trace := trace c @ [CopyToData r, Reply 226 ''Transfer complete.'', Sleep, CloseData]\<rparr>))"
  by (simp add: sendOutOfBandReader_def writeMessage_eq emit_def Let_def)

lemmas order_defs = new_events_def before_first_def from_first_def is_copy_def
  copied_replied_closed_def transfer_complete_def

lemma buildPath_trace [simp]: "buildPath (c\<lparr>trace := t\<rparr>) p = buildPath c p"
  by (simp add: buildPath_def)

lemmas transfer_simps = sendOutOfBandData_def sendOutOfBandReader_trace writeMessage_eq ret_def
  emit_def Let_def driver_called_def order_defs

lemma retr_order:
  "(transfer_complete \<in> set (new_events c (snd (commandRetr_Execute env c param))) \<longrightarrow>
      copied_replied_closed (new_events c (snd (commandRetr_Execute env c param))))
   \<and> (fst (commandRetr_Execute env c param) = RetNil \<longrightarrow>
        from_first transfer_complete (new_events c (snd (commandRetr_Execute env c param))) =
          [transfer_complete, Sleep, CloseData, CloseReader])
   \<and> (transfer_complete \<in> set (new_events c (snd (commandRetr_Execute env c param)))
        \<and> fst (commandRetr_Execute env c param) \<noteq> RetNil \<longrightarrow>
        from_first transfer_complete (new_events c (snd (commandRetr_Execute env c param))) =
          [transfer_complete, CloseData, CloseReader])"
  by (cases "GetFile (driver env) (buildPath c param)")
     (auto simp: commandRetr_Execute_def transfer_simps split: option.splits if_splits)

lemma list_order:
  "(transfer_complete \<in> set (new_events c (snd (commandList_Execute env c param))) \<longrightarrow>
      copied_replied_closed (new_events c (snd (commandList_Execute env c param))))
   \<and> (fst (commandList_Execute env c param) = RetNil \<longrightarrow>
        from_first transfer_complete (new_events c (snd (commandList_Execute env c param))) =
          [transfer_complete, Sleep, CloseData])
   \<and> (transfer_complete \<in> set (new_events c (snd (commandList_Execute env c param)))
        \<and> fst (commandList_Execute env c param) \<noteq> RetNil \<longrightarrow>
        from_first transfer_complete (new_events c (snd (commandList_Execute env c param))) =
          [transfer_complete, CloseData])"
  by (cases "listFlagsRegexp param"; cases "DirContents (driver env) (buildPath c [])";
      cases "DirContents (driver env) (buildPath c param)")
     (auto simp: commandList_Execute_def transfer_simps split: if_splits)

lemma nlst_order:
  "(transfer_complete \<in> set (new_events c (snd (commandNlst_Execute env c param))) \<longrightarrow>
      copied_replied_closed (new_events c (snd (commandNlst_Execute env c param))))
   \<and> (fst (commandNlst_Execute env c param) = RetNil \<longrightarrow>
        from_first transfer_complete (new_events c (snd (commandNlst_Execute env c param))) =
          [transfer_complete, Sleep, CloseData])
   \<and> (transfer_complete \<in> set (new_events c (snd (commandNlst_Execute env c param)))
        \<and> fst (commandNlst_Execute env c param) \<noteq> RetNil \<longrightarrow>
        from_first transfer_complete (new_events c (snd (commandNlst_Execute env c param))) =
          [transfer_complete, CloseData])"
  by (cases "listFlagsRegexp param"; cases "DirContents (driver env) (buildPath c [])";
      cases "DirContents (driver env) (buildPath c param)")
     (auto simp: commandNlst_Execute_def transfer_simps split: if_splits)

lemma retr_completes:
  "GetFile (driver env) (buildPath c param) = (Some content, False) \<Longrightarrow> dataConn c \<noteq> None \<Longrightarrow>
   \<not> copy_err env \<Longrightarrow> \<forall>n. \<not> write_err env n \<Longrightarrow>
   commandRetr_Execute env c param =
     (RetNil,
      c\<lparr>trace := trace c @
         [DriverCall ''GetFile'' [buildPath c param],
          Reply 150 ''Data connection open. Transfer starting.'',
          CopyToData content, transfer_complete, Sleep, CloseData, CloseReader]\<rparr>)"
  by (simp add: commandRetr_Execute_def transfer_simps)

lemma list_completes:
  "DirContents (driver env) (buildPath c (if listFlagsRegexp param then [] else param)) = (files, False) \<Longrightarrow>
   dataConn c \<noteq> None \<Longrightarrow> \<not> copy_err env \<Longrightarrow> \<forall>n. \<not> write_err env n \<Longrightarrow>
   commandList_Execute env c param =
     (RetNil,
      c\<lparr>trace := trace c @
         [Reply 150 ''Opening ASCII mode data connection for file list'',
          DriverCall ''DirContents'' [buildPath c (if listFlagsRegexp param then [] else param)],
          CopyToData (Detailed env files), transfer_complete, Sleep, CloseData]\<rparr>)"
  by (cases "listFlagsRegexp param") (simp_all add: commandList_Execute_def transfer_simps)

lemma nlst_completes:
  "DirContents (driver env) (buildPath c (if listFlagsRegexp param then [] else param)) = (files, False) \<Longrightarrow>
   dataConn c \<noteq> None \<Longrightarrow> \<not> copy_err env \<Longrightarrow> \<forall>n. \<not> write_err env n \<Longrightarrow>
   commandNlst_Execute env c param =
     (RetNil,
      c\<lparr>trace := trace c @
         [Reply 150 ''Opening ASCII mode data connection for file list'',
          DriverCall ''DirContents'' [buildPath c (if listFlagsRegexp param then [] else param)],
          CopyToData (Short env files), transfer_complete, Sleep, CloseData]\<rparr>)"
  by (cases "listFlagsRegexp param") (simp_all add: commandNlst_Execute_def transfer_simps)

lemma stor_reply:
  "(transfer_complete \<in> set (new_events c (snd (commandStor_Execute env c param))) \<longleftrightarrow>
      \<not> write_err env (length (trace c)) \<and> PutFile (driver env) (buildPath c param) = (True, False))
   \<and> (transfer_complete \<in> set (new_events c (snd (commandStor_Execute env c param))) \<longrightarrow>
        before_first transfer_complete (new_events c (snd (commandStor_Execute env c param))) =
          [Reply 150 ''Data transfer starting'', DriverCall ''PutFile'' [buildPath c param]])"
  by (cases "PutFile (driver env) (buildPath c param)")
     (auto simp: commandStor_Execute_def transfer_simps split: if_splits)


text \<open>C5, as amended: in RETR, LIST and NLST the reply 226 is written after the data was
  copied to the data socket and before that socket is closed. The close is deferred to
  the return of \<open>sendOutOfBandReader\<close>: a transfer that returns without error ends with
  the reply 226, the pause and then the close of the data socket, and one whose reply
  226 could not be written ends with that reply and the close. With a data socket
  attached, a driver that delivers and no failure of a write or of the copy, each of the
  three handlers runs to that end. STOR writes its reply 226 when, and only when, its 150
  went out and \<open>PutFile\<close> has returned true without an error, and the call of the driver
  comes before the reply.\<close>

theorem transfer_reply_then_close:
  "(cmdObj \<in> {commandRetr, commandList, commandNlst} \<longrightarrow>
      (transfer_complete \<in> set (new_events c (snd (Execute cmdObj env c param))) \<longrightarrow>
         copied_replied_closed (new_events c (snd (Execute cmdObj env c param))))
      \<and> (fst (Execute cmdObj env c param) = RetNil \<longrightarrow>
           from_first transfer_complete (new_events c (snd (Execute cmdObj env c param))) =
             [transfer_complete, Sleep, CloseData] @ (if cmdObj = commandRetr then [CloseReader] else []))
      \<and> (transfer_complete \<in> set (new_events c (snd (Execute cmdObj env c param)))
           \<and> fst (Execute cmdObj env c param) \<noteq> RetNil \<longrightarrow>
           from_first transfer_complete (new_events c (snd (Execute cmdObj env c param))) =
             [transfer_complete, CloseData] @ (if cmdObj = commandRetr then [CloseReader] else [])))
   \<and> (dataConn c \<noteq> None \<and> \<not> copy_err env \<and> (\<forall>n. \<not> write_err env n) \<longrightarrow>
        (GetFile (driver env) (buildPath c param) = (Some content, False) \<longrightarrow>
           Execute commandRetr env c param =
             (RetNil,
              c\<lparr>trace := trace c @
                 [DriverCall ''GetFile'' [buildPath c param],
                  Reply 150 ''Data connection open. Transfer starting.'',
                  CopyToData content, transfer_complete, Sleep, CloseData, CloseReader]\<rparr>))
        \<and> (DirContents (driver env) (buildPath c (if listFlagsRegexp param then [] else param)) =
              (files, False) \<longrightarrow>
           Execute commandList env c param =
             (RetNil,
              c\<lparr>trace := trace c @
                 [Reply 150 ''Opening ASCII mode data connection for file list'',
                  DriverCall ''DirContents'' [buildPath c (if listFlagsRegexp param then [] else param)],
                  CopyToData (Detailed env files), transfer_complete, Sleep, CloseData]\<rparr>)
           \<and> Execute commandNlst env c param =
             (RetNil,
              c\<lparr>trace := trace c @
                 [Reply 150 ''Opening ASCII mode data connection for file list'',
                  DriverCall ''DirContents'' [buildPath c (if listFlagsRegexp param then [] else param)],
                  CopyToData (Short env files), transfer_complete, Sleep, CloseData]\<rparr>)))
   \<and> (transfer_complete \<in> set (new_events c (snd (Execute commandStor env c param))) \<longleftrightarrow>
        \<not> write_err env (length (trace c)) \<and> PutFile (driver env) (buildPath c param) = (True, False))
   \<and> (transfer_complete \<in> set (new_events c (snd (Execute commandStor env c param))) \<longrightarrow>
        before_first transfer_complete (new_events c (snd (Execute commandStor env c param))) =
          [Reply 150 ''Data transfer starting'', DriverCall ''PutFile'' [buildPath c param]])"
proof -
  have order: "cmdObj \<in> {commandRetr, commandList, commandNlst} \<longrightarrow>
      (transfer_complete \<in> set (new_events c (snd (Execute cmdObj env c param))) \<longrightarrow>
         copied_replied_closed (new_events c (snd (Execute cmdObj env c param))))
      \<and> (fst (Execute cmdObj env c param) = RetNil \<longrightarrow>
           from_first transfer_complete (new_events c (snd (Execute cmdObj env c param))) =
             [transfer_complete, Sleep, CloseData] @ (if cmdObj = commandRetr then [CloseReader] else []))
      \<and> (transfer_complete \<in> set (new_events c (snd (Execute cmdObj env c param)))
           \<and> fst (Execute cmdObj env c param) \<noteq> RetNil \<longrightarrow>
           from_first transfer_complete (new_events c (snd (Execute cmdObj env c param))) =
             [transfer_complete, CloseData] @ (if cmdObj = commandRetr then [CloseReader] else []))"
  proof
    assume "cmdObj \<in> {commandRetr, commandList, commandNlst}"
    then consider "cmdObj = commandRetr" | "cmdObj = commandList" | "cmdObj = commandNlst"
      by auto
    then show "(transfer_complete \<in> set (new_events c (snd (Execute cmdObj env c param))) \<longrightarrow>
         copied_replied_closed (new_events c (snd (Execute cmdObj env c param))))
      \<and> (fst (Execute cmdObj env c param) = RetNil \<longrightarrow>
           from_first transfer_complete (new_events c (snd (Execute cmdObj env c param))) =
             [transfer_complete, Sleep, CloseData] @ (if cmdObj = commandRetr then [CloseReader] else []))
      \<and> (transfer_complete \<in> set (new_events c (snd (Execute cmdObj env c param)))
           \<and> fst (Execute cmdObj env c param) \<noteq> RetNil \<longrightarrow>
           from_first transfer_complete (new_events c (snd (Execute cmdObj env c param))) =
             [transfer_complete, CloseData] @ (if cmdObj = commandRetr then [CloseReader] else []))"
    proof cases
      case 1
      with retr_order [of c env param] show ?thesis by simp
    next
      case 2
      with list_order [of c env param] show ?thesis by simp
    next
      case 3
      with nlst_order [of c env param] show ?thesis by simp
    qed
  qed
  have complete: "dataConn c \<noteq> None \<and> \<not> copy_err env \<and> (\<forall>n. \<not> write_err env n) \<longrightarrow>
        (GetFile (driver env) (buildPath c param) = (Some content, False) \<longrightarrow>
           Execute commandRetr env c param =
             (RetNil,
              c\<lparr>trace := trace c @
                 [DriverCall ''GetFile'' [buildPath c param],
                  Reply 150 ''Data connection open. Transfer starting.'',
                  CopyToData content, transfer_complete, Sleep, CloseData, CloseReader]\<rparr>))
        \<and> (DirContents (driver env) (buildPath c (if listFlagsRegexp param then [] else param)) =
              (files, False) \<longrightarrow>
           Execute commandList env c param =
             (RetNil,
              c\<lparr>trace := trace c @
                 [Reply 150 ''Opening ASCII mode data connection for file list'',
                  DriverCall ''DirContents'' [buildPath c (if listFlagsRegexp param then [] else param)],
                  CopyToData (Detailed env files), transfer_complete, Sleep, CloseData]\<rparr>)
           \<and> Execute commandNlst env c param =
             (RetNil,
              c\<lparr>trace := trace c @
                 [Reply 150 ''Opening ASCII mode data connection for file list'',
                  DriverCall ''DirContents'' [buildPath c (if listFlagsRegexp param then [] else param)],
                  CopyToData (Short env files), transfer_complete, Sleep, CloseData]\<rparr>))"
    using retr_completes [of env c param content] list_completes [of env c param files]
          nlst_completes [of env c param files]
    by simp
  from order complete stor_reply [of c env param] show ?thesis
    by simp
qed


theorem transfer_reply_then_close_witness:
  "Execute commandRetr demoEnv demoData ''one.txt'' =
     (RetNil,
      demoData\<lparr>trace :=
         [DriverCall ''GetFile'' [''/one.txt''],
          Reply 150 ''Data connection open. Transfer starting.'',
          CopyToData ''hello'', transfer_complete, Sleep, CloseData, CloseReader]\<rparr>)
   \<and> copied_replied_closed (new_events demoData (snd (Execute commandRetr demoEnv demoData ''one.txt'')))
   \<and> from_first transfer_complete
         (new_events demoData (snd (Execute commandRetr demoEnv demoData ''one.txt''))) =
       [transfer_complete, Sleep, CloseData, CloseReader]
   \<and> from_first transfer_complete
         (new_events demoData (snd (Execute commandRetr demoEnvLostReply demoData ''one.txt''))) =
       [transfer_complete, CloseData, CloseReader]
   \<and> Execute commandList demoEnv demoData ''-al'' =
     (RetNil,
      demoData\<lparr>trace :=
         [Reply 150 ''Opening ASCII mode data connection for file list'',
          DriverCall ''DirContents'' [''/''],
          CopyToData (''files'' @ crlf @ ''one.txt'' @ crlf), transfer_complete, Sleep, CloseData]\<rparr>)
   \<and> before_first transfer_complete
         (new_events demoData (snd (Execute commandStor demoEnv demoData ''new.txt''))) =
       [Reply 150 ''Data transfer starting'', DriverCall ''PutFile'' [''/new.txt'']]"
proof -
  have paths: "buildPath demoData ''one.txt'' = ''/one.txt''"
              "buildPath demoData ''new.txt'' = ''/new.txt''"
              "buildPath demoData [] = ''/''" "listFlagsRegexp ''-al''"
    by code_simp+
  have env: "dataConn demoData \<noteq> None \<and> \<not> copy_err demoEnv \<and> (\<forall>n. \<not> write_err demoEnv n)"
    by (simp add: demoData_def demoEnv_fields)
  have tr: "trace demoData = []"
    by (simp add: demoData_def demoAuth_fields)
  have get: "GetFile (driver demoEnv) (buildPath demoData ''one.txt'') = (Some ''hello'', False)"
    unfolding paths by (simp add: demoEnv_fields demoDriver_def)
  have dir: "DirContents (driver demoEnv) (buildPath demoData (if listFlagsRegexp ''-al'' then [] else ''-al'')) =
               ([(''files'', 0, True), (''one.txt'', 5, False)], False)"
    using paths(3,4) by (simp add: demoEnv_fields demoDriver_def)
  have put: "PutFile (driver demoEnv) (buildPath demoData ''new.txt'') = (True, False)"
    by (simp add: demoEnv_fields demoDriver_def)
  have det: "Detailed demoEnv [(''files'', 0, True), (''one.txt'', 5, False)] = ''files'' @ crlf @ ''one.txt'' @ crlf"
    by (simp add: demoEnv_def)
  have lost: "transfer_complete \<in> set (new_events demoData (snd (Execute commandRetr demoEnvLostReply demoData ''one.txt'')))
              \<and> fst (Execute commandRetr demoEnvLostReply demoData ''one.txt'') \<noteq> RetNil"
    by code_simp
  note a = transfer_reply_then_close [of commandRetr demoData demoEnv "''one.txt''" "''hello''"]
  note b = transfer_reply_then_close [of commandRetr demoData demoEnvLostReply "''one.txt''"]
  note l = transfer_reply_then_close [of commandList demoData demoEnv "''-al''" _
             "[(''files'', 0, True), (''one.txt'', 5, False)]"]
  from a env get have 1: "Execute commandRetr demoEnv demoData ''one.txt'' =
     (RetNil,
      demoData\<lparr>trace := trace demoData @
         [DriverCall ''GetFile'' [buildPath demoData ''one.txt''],
          Reply 150 ''Data connection open. Transfer starting.'',
          CopyToData ''hello'', transfer_complete, Sleep, CloseData, CloseReader]\<rparr>)"
    by blast
  then have ok: "fst (Execute commandRetr demoEnv demoData ''one.txt'') = RetNil"
    by simp
  from a ok have 3: "from_first transfer_complete
         (new_events demoData (snd (Execute commandRetr demoEnv demoData ''one.txt''))) =
       [transfer_complete, Sleep, CloseData, CloseReader]"
    by simp
  from 1 have "transfer_complete \<in> set (new_events demoData (snd (Execute commandRetr demoEnv demoData ''one.txt'')))"
    by (simp add: new_events_def)
  with a have 2: "copied_replied_closed (new_events demoData (snd (Execute commandRetr demoEnv demoData ''one.txt'')))"
    by simp
  from b lost have 4: "from_first transfer_complete
         (new_events demoData (snd (Execute commandRetr demoEnvLostReply demoData ''one.txt''))) =
       [transfer_complete, CloseData, CloseReader]"
    by simp
  from l env dir have 5: "Execute commandList demoEnv demoData ''-al'' =
     (RetNil,
      demoData\<lparr>trace := trace demoData @
         [Reply 150 ''Opening ASCII mode data connection for file list'',
          DriverCall ''DirContents'' [buildPath demoData (if listFlagsRegexp ''-al'' then [] else ''-al'')],
          CopyToData (Detailed demoEnv [(''files'', 0, True), (''one.txt'', 5, False)]),
          transfer_complete, Sleep, CloseData]\<rparr>)"
    by blast
  note s = transfer_reply_then_close [of commandRetr demoData demoEnv "''new.txt''"]
  from s put env have "transfer_complete \<in> set (new_events demoData (snd (Execute commandStor demoEnv demoData ''new.txt'')))"
    by simp
  with s have 6: "before_first transfer_complete
         (new_events demoData (snd (Execute commandStor demoEnv demoData ''new.txt''))) =
       [Reply 150 ''Data transfer starting'', DriverCall ''PutFile'' [buildPath demoData ''new.txt'']]"
    by simp
  from 1 2 3 4 5 6 show ?thesis
    unfolding paths det tr using paths(3,4) by simp
qed

text \<open>The claim as it was stated, that 226 is never written before the data socket is
  closed, fails on a plain download: the close is the event after the reply and the
  pause.\<close>

theorem reply_226_before_close_counterexample:
  "trace (snd (commandRetr_Execute demoEnv demoData ''one.txt'')) =
     [DriverCall ''GetFile'' [''/one.txt''],
      Reply 150 ''Data connection open. Transfer starting.'',
      CopyToData ''hello'', Reply 226 ''Transfer complete.'', Sleep, CloseData, CloseReader]"
  by code_simp

section \<open>PASV\<close>

lemma Split_nonempty [simp]: "Split d s \<noteq> []"
  by (induction s) (auto split: list.splits)

lemma Join_Split: "Join (Split d s) [d] = s"
proof (induction s)
  case Nil
  then show ?case by simp
next
  case (Cons c cs)
  obtain x xs where sp: "Split d cs = x # xs"
    by (cases "Split d cs") auto
  with Cons show ?case
    by (cases xs) auto
qed

lemma pasv_port_numbers:
  fixes P :: port
  shows "uint (P div 256) = uint P div 256" "uint (P - P div 256 * 256) = uint P mod 256"
proof -
  show "uint (P div 256) = uint P div 256"
    by (simp add: uint_div)
  have "P - P div 256 * 256 = P mod 256"
    by (simp add: minus_div_mult_eq_mod)
  then show "uint (P - P div 256 * 256) = uint P mod 256"
    by (simp add: uint_mod)
qed

lemma newPassiveSocket_Some:
  "newPassiveSocket env c = Inr (Some sock, c1) \<Longrightarrow>
     pasvAdvertisedIp c1 = pasvAdvertisedIp c \<and> Host sock = localIP env \<and> dataConn c1 = Some sock"
  by (auto simp: newPassiveSocket_def newPassiveSocket_pkg_def close_previous_def emit_def Let_def
        Host_def split: sum.splits listen_result.splits if_splits)

text \<open>C7: when the passive socket is bound on port \<open>P\<close> and the host to advertise has four
  fields between its dots, PASV replies 227 with these four fields and the two numbers
  \<open>P div 256\<close> and \<open>P mod 256\<close>, which give \<open>P\<close> back as \<open>256 * p1 + p2\<close> with
  \<open>0 \<le> p2 < 256\<close>; the host is \<open>pasvAdvertisedIp\<close> when that is not empty and the
  address the socket listens on, the local address of the control connection,
  otherwise.\<close>

theorem pasv_reply_quotes_port:
  "newPassiveSocket env c = Inr (Some sock, c1) \<Longrightarrow>
   Split (CHR ''.'') (if pasvAdvertisedIp c = [] then Host sock else pasvAdvertisedIp c) = [h1, h2, h3, h4] \<Longrightarrow>
   commandPasv_Execute env c param =
     (if write_err env (length (trace c1)) then RetErr else RetNil,
      c1\<lparr>trace := trace c1 @
         [Reply 227 (''Entering Passive Mode ('' @ h1 @ '','' @ h2 @ '','' @ h3 @ '','' @ h4 @ '','' @
                     itoa (uint (Port sock) div 256) @ '','' @ itoa (uint (Port sock) mod 256) @ '')'')]\<rparr>)
   \<and> uint (Port sock) = 256 * (uint (Port sock) div 256) + uint (Port sock) mod 256
   \<and> 0 \<le> uint (Port sock) mod 256 \<and> uint (Port sock) mod 256 < 256
   \<and> h1 @ ''.'' @ h2 @ ''.'' @ h3 @ ''.'' @ h4 =
       (if pasvAdvertisedIp c = [] then Host sock else pasvAdvertisedIp c)
   \<and> Host sock = localIP env"
proof -
  assume n: "newPassiveSocket env c = Inr (Some sock, c1)"
  assume q: "Split (CHR ''.'') (if pasvAdvertisedIp c = [] then Host sock else pasvAdvertisedIp c) = [h1, h2, h3, h4]"
  from newPassiveSocket_Some [OF n]
  have f: "pasvAdvertisedIp c1 = pasvAdvertisedIp c" "Host sock = localIP env" by simp_all
  have j: "h1 @ ''.'' @ h2 @ ''.'' @ h3 @ ''.'' @ h4 =
       (if pasvAdvertisedIp c = [] then Host sock else pasvAdvertisedIp c)"
    using Join_Split [of "CHR ''.''" "if pasvAdvertisedIp c = [] then Host sock else pasvAdvertisedIp c"]
    by (simp only: q) simp
  have e: "commandPasv_Execute env c param =
     (if write_err env (length (trace c1)) then RetErr else RetNil,
      c1\<lparr>trace := trace c1 @
         [Reply 227 (''Entering Passive Mode ('' @ h1 @ '','' @ h2 @ '','' @ h3 @ '','' @ h4 @ '','' @
                     itoa (uint (Port sock) div 256) @ '','' @ itoa (uint (Port sock) mod 256) @ '')'')]\<rparr>)"
  proof (cases "pasvAdvertisedIp c = []")
    case True
    with q have "Split (CHR ''.'') (Host sock) = [h1, h2, h3, h4]" by simp
    with True show ?thesis
      by (simp add: commandPasv_Execute_def n f(1) Let_def pasv_port_numbers ret_writeMessage)
  next
    case False
    with q have "Split (CHR ''.'') (pasvAdvertisedIp c) = [h1, h2, h3, h4]" by simp
    with False show ?thesis
      by (simp add: commandPasv_Execute_def n f(1) Let_def pasv_port_numbers ret_writeMessage)
  qed
  from e j f show ?thesis by simp
qed


lemma demoEnv_sockets:
  "rand_draw demoEnv n = 7" "listen_ok demoEnv p = True" "dial_ok demoEnv h p = True"
  "os_port demoEnv = 40000"
  by (simp_all add: demoEnv_def)

lemma demo_listener: "netListenerInRange demoEnv 60200 60300 (Suc 0) = Listening 60207"
  by (simp add: netListenerInRange.simps [of demoEnv 60200 60300 "Suc 0"] randomPort_def Intn_def
        demoEnv_sockets)

lemma demo_passive:
  "newPassiveSocket demoEnv demoAuth =
     Inr (Some (ftpPassiveSocket ''10.0.0.5'' 60207),
          demoAuth\<lparr>dataConn := Some (ftpPassiveSocket ''10.0.0.5'' 60207),
                   trace := [ListenOn ''10.0.0.5'' 60207]\<rparr>)"
  by (simp add: newPassiveSocket_def newPassiveSocket_pkg_def close_previous_def demoAuth_fields
        demoAuth_def demoConn_fields demoEnv_fields demo_listener emit_def Host_def Port_def)

theorem pasv_reply_quotes_port_witness:
  "commandPasv_Execute demoEnv demoAuth [] =
     (RetNil,
      demoAuth\<lparr>dataConn := Some (ftpPassiveSocket ''10.0.0.5'' 60207),
               trace := [ListenOn ''10.0.0.5'' 60207,
                         Reply 227 ''Entering Passive Mode (10,0,0,5,235,47)'']\<rparr>)
   \<and> (60207 :: int) = 256 * 235 + 47"
proof -
  have q: "Split (CHR ''.'') (if pasvAdvertisedIp demoAuth = [] then Host (ftpPassiveSocket ''10.0.0.5'' 60207)
             else pasvAdvertisedIp demoAuth) = [''10'', ''0'', ''0'', ''5'']"
    by (simp add: demoAuth_def demoConn_fields Host_def)
  have i: "itoa 235 = ''235''" "itoa 47 = ''47''"
    by code_simp+
  from pasv_reply_quotes_port [OF demo_passive q, of "[]"] i
  show ?thesis by (simp add: Port_def demoEnv_fields)
qed

section \<open>Parsing\<close>

lemma Trim_decompose:
  "\<exists>a b. s = a @ Trim s cs @ b \<and> set a \<subseteq> set cs \<and> set b \<subseteq> set cs"
proof -
  let ?P = "\<lambda>c. c \<in> set cs"
  let ?m = "dropWhile ?P s"
  have 1: "s = takeWhile ?P s @ ?m" by simp
  have 2: "rev ?m = takeWhile ?P (rev ?m) @ dropWhile ?P (rev ?m)" by simp
  then have "?m = rev (dropWhile ?P (rev ?m)) @ rev (takeWhile ?P (rev ?m))"
    by (metis rev_append rev_rev_ident)
  then have 3: "?m = Trim s cs @ rev (takeWhile ?P (rev ?m))"
    by (simp add: Trim_def)
  have 4: "set (takeWhile ?P s) \<subseteq> set cs"
    by (auto dest: set_takeWhileD)
  have 5: "set (rev (takeWhile ?P (rev ?m))) \<subseteq> set cs"
    by (auto dest: set_takeWhileD)
  from 1 3 have "s = takeWhile ?P s @ Trim s cs @ rev (takeWhile ?P (rev ?m))"
    by simp
  with 4 5 show ?thesis by blast
qed

lemma Trim_ends:
  "Trim s cs \<noteq> [] \<Longrightarrow> hd (Trim s cs) \<notin> set cs \<and> last (Trim s cs) \<notin> set cs"
proof -
  let ?P = "\<lambda>c. c \<in> set cs"
  let ?m = "dropWhile ?P s"
  let ?r = "dropWhile ?P (rev ?m)"
  assume n: "Trim s cs \<noteq> []"
  then have r: "?r \<noteq> []" by (simp add: Trim_def)
  then have h: "\<not> ?P (hd ?r)" by (rule hd_dropWhile)
  have l: "last (Trim s cs) = hd ?r"
    using r by (simp add: Trim_def last_rev)
  have m: "?m \<noteq> []"
  proof
    assume "?m = []"
    with r show False by simp
  qed
  then have hm: "\<not> ?P (hd ?m)" by (rule hd_dropWhile)
  have "\<exists>z. rev ?m = z @ ?r" by (metis takeWhile_dropWhile_id)
  then obtain z where "rev ?m = z @ ?r" ..
  then have "?m = rev ?r @ rev z" by (metis rev_append rev_rev_ident)
  with r have "hd ?m = hd (rev ?r)" by (metis hd_append2 rev_is_Nil_conv)
  then have "hd (Trim s cs) = hd ?m" by (simp add: Trim_def)
  with hm h l show ?thesis by simp
qed

lemma trim_runes_suffix: "suffix (trim_runes ws s) s"
proof (induction ws s rule: trim_runes.induct)
  case (1 ws s)
  show ?case
  proof (cases "find (\<lambda>w. w \<noteq> [] \<and> take (length w) s = w) ws")
    case None
    then show ?thesis by (simp add: trim_runes.simps [of ws s])
  next
    case (Some w)
    with 1 have "suffix (trim_runes ws (drop (length w) s)) (drop (length w) s)" by simp
    then have "suffix (trim_runes ws (drop (length w) s)) s"
      by (meson suffix_drop suffix_order.trans)
    with Some show ?thesis by (simp add: trim_runes.simps [of ws s])
  qed
qed

lemma trim_runes_no_prefix:
  "w \<in> set ws \<Longrightarrow> w \<noteq> [] \<Longrightarrow> \<not> prefix w (trim_runes ws s)"
proof (induction ws s rule: trim_runes.induct)
  case (1 ws s)
  show ?case
  proof (cases "find (\<lambda>w. w \<noteq> [] \<and> take (length w) s = w) ws")
    case None
    with 1(2,3) have "take (length w) s \<noteq> w"
      by (auto simp: find_None_iff)
    then have "\<not> prefix w s"
      by (auto simp: prefix_def)
    with None show ?thesis by (simp add: trim_runes.simps [of ws s])
  next
    case (Some v)
    with 1 show ?thesis by (simp add: trim_runes.simps [of ws s])
  qed
qed

lemma TrimSpace_trimmed:
  assumes "w \<in> set space_runes"
  shows "\<not> prefix w (TrimSpace s) \<and> \<not> suffix w (TrimSpace s)"
proof -
  have ne: "w \<noteq> []" using assms by (auto simp: space_runes_def)
  let ?t = "trim_runes space_runes s"
  let ?u = "trim_runes (map rev space_runes) (rev ?t)"
  have T: "TrimSpace s = rev ?u" by (simp add: TrimSpace_def)
  have "rev w \<in> set (map rev space_runes)" using assms by simp
  then have "\<not> prefix (rev w) ?u"
    using ne by (intro trim_runes_no_prefix) simp_all
  then have s: "\<not> suffix w (rev ?u)"
    by (metis rev_rev_ident suffix_to_prefix)
  have "suffix ?u (rev ?t)" by (rule trim_runes_suffix)
  then have "prefix (rev ?u) ?t"
    by (metis rev_rev_ident suffix_to_prefix)
  moreover have "\<not> prefix w ?t"
    using assms ne by (rule trim_runes_no_prefix)
  ultimately have "\<not> prefix w (rev ?u)"
    by (meson prefix_order.trans)
  with s T show ?thesis by simp
qed


lemma table_keys_upper:
  "commands name = Some cmdObj \<Longrightarrow> ch \<in> set name \<Longrightarrow> \<not> is_lower ch"
  by (auto simp: commands_def commandMap_def is_lower_def split: if_splits)

lemma takeWhile_absent: "x \<notin> set s \<Longrightarrow> takeWhile (\<lambda>c. c \<noteq> x) s = s"
  by (induction s) auto

lemma parseLine_stripped:
  "parseLine line =
     (takeWhile (\<lambda>c. c \<noteq> CHR '' '') (stripped line),
      if CHR '' '' \<in> set (stripped line)
      then TrimSpace (tl (dropWhile (\<lambda>c. c \<noteq> CHR '' '') (stripped line))) else [])"
  by (simp add: parseLine_def SplitN2_def stripped_def Let_def takeWhile_absent)

lemma split_at_first_space:
  "CHR '' '' \<in> set s \<Longrightarrow>
   s = takeWhile (\<lambda>c. c \<noteq> CHR '' '') s @ CHR '' '' # tl (dropWhile (\<lambda>c. c \<noteq> CHR '' '') s)"
proof -
  assume m: "CHR '' '' \<in> set s"
  let ?d = "dropWhile (\<lambda>c. c \<noteq> CHR '' '') s"
  from m have n: "?d \<noteq> []" by (simp add: dropWhile_eq_Nil_conv)
  then have "\<not> (hd ?d \<noteq> CHR '' '')" by (rule hd_dropWhile)
  with n have "?d = CHR '' '' # tl ?d" by (cases ?d) auto
  then show ?thesis
    by (metis takeWhile_dropWhile_id)
qed

text \<open>C6, as amended: \<open>parse_line\<close> removes the CR and LF bytes at both ends of the line and
  cuts the rest at its first space into the command token and the parameter; the
  parameter is empty when there is no space, and otherwise the rest with the white space
  at its two ends removed. The command token is returned as it was typed, without any
  change of case; the keys of the table have no lower-case letter, so a token that has
  one resolves to no entry and is answered 500.\<close>

theorem parseLine_keeps_case:
  "(\<exists>a b. line = a @ stripped line @ b \<and> set a \<subseteq> {CHR 0x0D, CHR 0x0A} \<and> set b \<subseteq> {CHR 0x0D, CHR 0x0A})
   \<and> (stripped line \<noteq> [] \<longrightarrow>
        hd (stripped line) \<notin> {CHR 0x0D, CHR 0x0A} \<and> last (stripped line) \<notin> {CHR 0x0D, CHR 0x0A})
   \<and> fst (parseLine line) = takeWhile (\<lambda>c. c \<noteq> CHR '' '') (stripped line)
   \<and> (CHR '' '' \<notin> set (stripped line) \<longrightarrow> parseLine line = (stripped line, []))
   \<and> (CHR '' '' \<in> set (stripped line) \<longrightarrow>
        (\<exists>rest. stripped line = fst (parseLine line) @ CHR '' '' # rest
                \<and> snd (parseLine line) = TrimSpace rest))
   \<and> (\<forall>w \<in> set space_runes. \<not> prefix w (snd (parseLine line)) \<and> \<not> suffix w (snd (parseLine line)))
   \<and> ((\<exists>ch \<in> set (fst (parseLine line)). is_lower ch) \<longrightarrow>
        commands (fst (parseLine line)) = None
        \<and> receiveLine env c line =
            (if write_err env (length (trace c)) then RetErr else RetNil,
             c\<lparr>trace := trace c @ [Reply 500 ''Command not found'']\<rparr>))"
proof -
  have 1: "\<exists>a b. line = a @ stripped line @ b \<and> set a \<subseteq> {CHR 0x0D, CHR 0x0A} \<and> set b \<subseteq> {CHR 0x0D, CHR 0x0A}"
    using Trim_decompose [of line "[CHR 0x0D, CHR 0x0A]"] by (simp add: stripped_def)
  have 2: "stripped line \<noteq> [] \<longrightarrow>
        hd (stripped line) \<notin> {CHR 0x0D, CHR 0x0A} \<and> last (stripped line) \<notin> {CHR 0x0D, CHR 0x0A}"
    using Trim_ends [of line "[CHR 0x0D, CHR 0x0A]"] by (simp add: stripped_def)
  have 3: "fst (parseLine line) = takeWhile (\<lambda>c. c \<noteq> CHR '' '') (stripped line)"
    by (simp add: parseLine_stripped)
  have 4: "CHR '' '' \<notin> set (stripped line) \<longrightarrow> parseLine line = (stripped line, [])"
    by (simp add: parseLine_stripped takeWhile_absent)
  have 5: "CHR '' '' \<in> set (stripped line) \<longrightarrow>
        (\<exists>rest. stripped line = fst (parseLine line) @ CHR '' '' # rest
                \<and> snd (parseLine line) = TrimSpace rest)"
  proof
    assume m: "CHR '' '' \<in> set (stripped line)"
    from split_at_first_space [OF m] m
    have "stripped line = fst (parseLine line) @ CHR '' '' # tl (dropWhile (\<lambda>c. c \<noteq> CHR '' '') (stripped line))
          \<and> snd (parseLine line) = TrimSpace (tl (dropWhile (\<lambda>c. c \<noteq> CHR '' '') (stripped line)))"
      by (simp add: parseLine_stripped)
    then show "\<exists>rest. stripped line = fst (parseLine line) @ CHR '' '' # rest
                \<and> snd (parseLine line) = TrimSpace rest" ..
  qed
  have 6: "\<forall>w \<in> set space_runes. \<not> prefix w (snd (parseLine line)) \<and> \<not> suffix w (snd (parseLine line))"
  proof
    fix w assume w: "w \<in> set space_runes"
    then have "w \<noteq> []" by (auto simp: space_runes_def)
    with TrimSpace_trimmed [OF w]
    show "\<not> prefix w (snd (parseLine line)) \<and> \<not> suffix w (snd (parseLine line))"
      by (simp add: parseLine_stripped)
  qed
  have 7: "(\<exists>ch \<in> set (fst (parseLine line)). is_lower ch) \<longrightarrow>
        commands (fst (parseLine line)) = None
        \<and> receiveLine env c line =
            (if write_err env (length (trace c)) then RetErr else RetNil,
             c\<lparr>trace := trace c @ [Reply 500 ''Command not found'']\<rparr>)"
  proof
    assume "\<exists>ch \<in> set (fst (parseLine line)). is_lower ch"
    then have n: "commands (fst (parseLine line)) = None"
      using table_keys_upper by (cases "commands (fst (parseLine line))") auto
    obtain command param where p: "parseLine line = (command, param)"
      by (cases "parseLine line")
    with n show "commands (fst (parseLine line)) = None
        \<and> receiveLine env c line =
            (if write_err env (length (trace c)) then RetErr else RetNil,
             c\<lparr>trace := trace c @ [Reply 500 ''Command not found'']\<rparr>)"
      by (simp add: receiveLine_parsed [OF p] ret_writeMessage)
  qed
  from 1 2 3 4 5 6 7 show ?thesis by blast
qed


theorem parseLine_keeps_case_witness:
  "stripped (''quit'' @ crlf) = ''quit''
   \<and> parseLine (''quit'' @ crlf) = (''quit'', [])
   \<and> commands ''quit'' = None
   \<and> receiveLine demoEnv demoConn (''quit'' @ crlf) =
       (RetNil, demoConn\<lparr>trace := [Reply 500 ''Command not found'']\<rparr>)
   \<and> (\<exists>rest. ''USER  bob '' = ''USER'' @ CHR '' '' # rest \<and> ''bob'' = TrimSpace rest)
   \<and> \<not> prefix '' '' (snd (parseLine (''USER  bob '' @ crlf)))"
proof -
  have s1: "stripped (''quit'' @ crlf) = ''quit''"
    by (simp add: stripped_def Trim_def crlf_def)
  have p1: "parseLine (''quit'' @ crlf) = (''quit'', [])"
    by code_simp
  have s2: "stripped (''USER  bob '' @ crlf) = ''USER  bob ''"
    by (simp add: stripped_def Trim_def crlf_def)
  have p2: "parseLine (''USER  bob '' @ crlf) = (''USER'', ''bob'')"
    by code_simp
  have l: "\<exists>ch \<in> set (fst (parseLine (''quit'' @ crlf))). is_lower ch"
    unfolding p1 by (simp add: is_lower_def)
  have w: "'' '' \<in> set space_runes"
    by (simp add: space_runes_def)
  note a = parseLine_keeps_case [of "''quit'' @ crlf" demoEnv demoConn]
  note b = parseLine_keeps_case [of "''USER  bob '' @ crlf" demoEnv demoConn]
  from a l have "commands (fst (parseLine (''quit'' @ crlf))) = None
        \<and> receiveLine demoEnv demoConn (''quit'' @ crlf) =
            (if write_err demoEnv (length (trace demoConn)) then RetErr else RetNil,
             demoConn\<lparr>trace := trace demoConn @ [Reply 500 ''Command not found'']\<rparr>)"
    by blast
  then have r1: "commands ''quit'' = None \<and> receiveLine demoEnv demoConn (''quit'' @ crlf) =
       (RetNil, demoConn\<lparr>trace := [Reply 500 ''Command not found'']\<rparr>)"
    unfolding p1 by (simp add: demoConn_fields demoEnv_fields)
  from a have "CHR '' '' \<notin> set (stripped (''quit'' @ crlf)) \<longrightarrow>
      parseLine (''quit'' @ crlf) = (stripped (''quit'' @ crlf), [])"
    by blast
  then have r0: "parseLine (''quit'' @ crlf) = (''quit'', [])"
    unfolding s1 by simp
  from b have "CHR '' '' \<in> set (stripped (''USER  bob '' @ crlf)) \<longrightarrow>
        (\<exists>rest. stripped (''USER  bob '' @ crlf) = fst (parseLine (''USER  bob '' @ crlf)) @ CHR '' '' # rest
                \<and> snd (parseLine (''USER  bob '' @ crlf)) = TrimSpace rest)"
    by blast
  then have r2: "\<exists>rest. ''USER  bob '' = ''USER'' @ CHR '' '' # rest \<and> ''bob'' = TrimSpace rest"
    unfolding s2 p2 by simp
  from b w have r3: "\<not> prefix '' '' (snd (parseLine (''USER  bob '' @ crlf)))"
    by blast
  from s1 r0 r1 r2 r3 show ?thesis by blast
qed

text \<open>The claim as it was stated, that the command token is put in upper case so that
  \<open>noop\<close> resolves like \<open>NOOP\<close>, fails: the token stays \<open>noop\<close>, which is no key of the
  table, and the line is answered 500 where \<open>NOOP\<close> is answered 200.\<close>

theorem parseLine_uppercase_counterexample:
  "parseLine (''noop'' @ crlf) = (''noop'', [])
   \<and> commands ''noop'' = None \<and> commands ''NOOP'' = Some commandNoop
   \<and> receiveLine demoEnv demoConn (''noop'' @ crlf) =
       (RetNil, demoConn\<lparr>trace := [Reply 500 ''Command not found'']\<rparr>)
   \<and> receiveLine demoEnv demoConn (''NOOP'' @ crlf) =
       (RetNil, demoConn\<lparr>trace := [Reply 200 ''OK'']\<rparr>)"
  by code_simp

section \<open>Path building\<close>

lemma Split_no_separator: "x \<in> set (Split d s) \<Longrightarrow> d \<notin> set x"
proof (induction s arbitrary: x)
  case Nil
  then show ?case by simp
next
  case (Cons c cs)
  obtain y ys where sp: "Split d cs = y # ys"
    by (cases "Split d cs") auto
  show ?case
  proof (cases "c = d")
    case True
    with Cons show ?thesis by auto
  next
    case False
    with Cons.prems sp have "x = c # y \<or> x \<in> set ys" by auto
    with Cons.IH sp False show ?thesis by auto
  qed
qed

lemma Split_without_separator: "d \<notin> set x \<Longrightarrow> Split d x = [x]"
  by (induction x) auto

lemma Split_append_separator: "d \<notin> set x \<Longrightarrow> Split d (x @ d # rest) = x # Split d rest"
  by (induction x) auto

lemma Split_Join:
  "\<forall>x \<in> set gs. proper_element x \<Longrightarrow> gs \<noteq> [] \<Longrightarrow> Split slash (Join gs [slash]) = gs"
proof (induction gs "[slash]" rule: Join.induct)
  case 1
  then show ?case by simp
next
  case (2 x)
  then show ?case by (simp add: Split_without_separator proper_element_def)
next
  case (3 x y ys)
  then show ?case by (simp add: Split_append_separator proper_element_def)
qed

lemma clean_step_proper:
  "\<forall>x \<in> set out. proper_element x \<Longrightarrow> slash \<notin> set e \<Longrightarrow>
   \<forall>x \<in> set (clean_step True out e). proper_element x"
  by (auto simp: clean_step_def proper_element_def split: list.splits)

lemma foldl_clean_step_proper:
  "\<forall>x \<in> set out. proper_element x \<Longrightarrow> \<forall>e \<in> set es. slash \<notin> set e \<Longrightarrow>
   \<forall>x \<in> set (foldl (clean_step True) out es). proper_element x"
proof (induction es arbitrary: out)
  case Nil
  then show ?case by simp
next
  case (Cons e es)
  from Cons.prems have "\<forall>x \<in> set (clean_step True out e). proper_element x"
    by (intro clean_step_proper) simp_all
  with Cons show ?case by simp
qed

lemma foldl_clean_step_id:
  "\<forall>x \<in> set gs. proper_element x \<Longrightarrow> foldl (clean_step True) out gs = rev gs @ out"
  by (induction gs arbitrary: out) (auto simp: clean_step_def proper_element_def)

lemma Clean_rooted:
  assumes "p \<noteq> []" "hd p = slash"
  shows "\<exists>gs. (\<forall>x \<in> set gs. proper_element x) \<and> Clean p = slash # Join gs [slash]"
proof -
  let ?out = "foldl (clean_step True) [] (Split slash p)"
  have "\<forall>e \<in> set (Split slash p). slash \<notin> set e"
    by (auto dest: Split_no_separator)
  then have "\<forall>x \<in> set ?out. proper_element x"
    by (intro foldl_clean_step_proper) simp_all
  then have "\<forall>x \<in> set (rev ?out). proper_element x" by simp
  moreover from assms have "Clean p = slash # Join (rev ?out) [slash]"
    by (simp add: Clean_def Let_def)
  ultimately show ?thesis by blast
qed

lemma Clean_canonical:
  assumes "\<forall>x \<in> set gs. proper_element x"
  shows "Clean (slash # Join gs [slash]) = slash # Join gs [slash]"
proof (cases "gs = []")
  case True
  then show ?thesis by (simp add: Clean_def clean_step_def)
next
  case False
  with assms have "Split slash (slash # Join gs [slash]) = [] # gs"
    by (simp add: Split_Join)
  with assms show ?thesis
    by (simp add: Clean_def Let_def clean_step_def foldl_clean_step_id)
qed

lemma no_double_slash_plain: "slash \<notin> set x \<Longrightarrow> no_double_slash x"
  by (induction x rule: no_double_slash.induct) auto

lemma no_double_slash_append:
  "slash \<notin> set x \<Longrightarrow> x \<noteq> [] \<Longrightarrow> no_double_slash (slash # rest) \<Longrightarrow>
   no_double_slash (slash # x @ slash # rest)"
proof -
  assume x: "slash \<notin> set x" "x \<noteq> []" and r: "no_double_slash (slash # rest)"
  have h: "slash \<notin> set y \<Longrightarrow> no_double_slash (y @ slash # rest)" for y
    using r by (induction y rule: no_double_slash.induct) auto
  from h [OF x(1)] have t: "no_double_slash (x @ slash # rest)" .
  from x obtain a list where c: "x = a # list" "a \<noteq> slash"
    by (cases x) auto
  with t show ?thesis by simp
qed

lemma no_double_slash_Join:
  "\<forall>x \<in> set gs. proper_element x \<Longrightarrow> no_double_slash (slash # Join gs [slash])"
proof (induction gs "[slash]" rule: Join.induct)
  case 1
  then show ?case by simp
next
  case (2 x)
  then have "slash \<notin> set x" "x \<noteq> []" by (simp_all add: proper_element_def)
  then show ?case by (cases x) (auto intro: no_double_slash_plain)
next
  case (3 x y ys)
  then have "slash \<notin> set x" "x \<noteq> []" "no_double_slash (slash # Join (y # ys) [slash])"
    by (simp_all add: proper_element_def)
  then show ?case by (simp add: no_double_slash_append)
qed

lemma ReplaceSlashSlash_id: "no_double_slash s \<Longrightarrow> ReplaceSlashSlash s = s"
  by (induction s rule: ReplaceSlashSlash.induct) auto

lemma components_canonical:
  assumes "\<forall>x \<in> set gs. proper_element x"
  shows "''.'' \<notin> set (components (slash # Join gs [slash]))
         \<and> ''..'' \<notin> set (components (slash # Join gs [slash]))"
proof (cases "gs = []")
  case True
  then show ?thesis by (simp add: components_def)
next
  case False
  with assms have "Split slash (slash # Join gs [slash]) = [] # gs"
    by (simp add: Split_Join)
  with assms show ?thesis
    by (auto simp: components_def proper_element_def)
qed


lemma buildPath_rooted:
  assumes "namePrefix c \<noteq> []" "hd (namePrefix c) = slash"
  shows "\<exists>gs. (\<forall>x \<in> set gs. proper_element x) \<and> buildPath c s = slash # Join gs [slash]"
proof -
  let ?arg = "if length s > 0 \<and> take 1 s = [slash] then s
              else if length s > 0 then namePrefix c @ [slash] @ s else namePrefix c"
  have b: "buildPath c s = ReplaceSlashSlash (Clean ?arg)"
    by (simp add: buildPath_def Let_def)
  have "?arg \<noteq> [] \<and> hd ?arg = slash"
    using assms by (cases s) auto
  then obtain gs where g: "\<forall>x \<in> set gs. proper_element x" "Clean ?arg = slash # Join gs [slash]"
    using Clean_rooted by blast
  from g(1) have "ReplaceSlashSlash (slash # Join gs [slash]) = slash # Join gs [slash]"
    by (intro ReplaceSlashSlash_id no_double_slash_Join)
  with b g show ?thesis by auto
qed

text \<open>C2: for every string of the client and every prefix that begins with a slash (every
  canonical absolute prefix does), \<open>buildPath\<close> returns a string that begins with a slash
  and has no \<open>.\<close> and no \<open>..\<close> among its components, and building the result again from
  the prefix \<open>/\<close> returns it unchanged. With the prefix \<open>/home\<close>, the path
  \<open>/../../../../etc/passwd\<close> becomes \<open>/etc/passwd\<close>.\<close>

theorem buildPath_canonical:
  "namePrefix c \<noteq> [] \<and> hd (namePrefix c) = slash \<longrightarrow>
     buildPath c s \<noteq> [] \<and> hd (buildPath c s) = slash
     \<and> ''.'' \<notin> set (components (buildPath c s)) \<and> ''..'' \<notin> set (components (buildPath c s))
     \<and> buildPath (c\<lparr>namePrefix := [slash]\<rparr>) (buildPath c s) = buildPath c s
     \<and> buildPath (c\<lparr>namePrefix := ''/home''\<rparr>) ''/../../../../etc/passwd'' = ''/etc/passwd''"
proof
  assume a: "namePrefix c \<noteq> [] \<and> hd (namePrefix c) = slash"
  then obtain gs where g: "\<forall>x \<in> set gs. proper_element x" "buildPath c s = slash # Join gs [slash]"
    using buildPath_rooted by blast
  have 1: "buildPath c s \<noteq> [] \<and> hd (buildPath c s) = slash"
    using g(2) by simp
  have 2: "''.'' \<notin> set (components (buildPath c s)) \<and> ''..'' \<notin> set (components (buildPath c s))"
    using components_canonical [OF g(1)] g(2) by simp
  have "buildPath (c\<lparr>namePrefix := [slash]\<rparr>) (slash # Join gs [slash]) =
          ReplaceSlashSlash (Clean (slash # Join gs [slash]))"
    by (simp add: buildPath_def)
  also have "\<dots> = slash # Join gs [slash]"
    using g(1) by (simp add: Clean_canonical ReplaceSlashSlash_id no_double_slash_Join)
  finally have 3: "buildPath (c\<lparr>namePrefix := [slash]\<rparr>) (buildPath c s) = buildPath c s"
    using g(2) by simp
  have "Clean ''/../../../../etc/passwd'' = ''/etc/passwd''"
    by code_simp
  then have 4: "buildPath (c\<lparr>namePrefix := ''/home''\<rparr>) ''/../../../../etc/passwd'' = ''/etc/passwd''"
    by (simp add: buildPath_def slash_def)
  from 1 2 3 4
  show "buildPath c s \<noteq> [] \<and> hd (buildPath c s) = slash
     \<and> ''.'' \<notin> set (components (buildPath c s)) \<and> ''..'' \<notin> set (components (buildPath c s))
     \<and> buildPath (c\<lparr>namePrefix := [slash]\<rparr>) (buildPath c s) = buildPath c s
     \<and> buildPath (c\<lparr>namePrefix := ''/home''\<rparr>) ''/../../../../etc/passwd'' = ''/etc/passwd''"
    by blast
qed

theorem buildPath_canonical_witness:
  "buildPath (demoConn\<lparr>namePrefix := ''/home''\<rparr>) ''a//b/./../c/'' = ''/home/a/c''
   \<and> hd (buildPath (demoConn\<lparr>namePrefix := ''/home''\<rparr>) ''a//b/./../c/'') = slash
   \<and> ''..'' \<notin> set (components (buildPath (demoConn\<lparr>namePrefix := ''/home''\<rparr>) ''a//b/./../c/''))
   \<and> buildPath (demoConn\<lparr>namePrefix := ''/home'', namePrefix := [slash]\<rparr>)
        (buildPath (demoConn\<lparr>namePrefix := ''/home''\<rparr>) ''a//b/./../c/'') =
      buildPath (demoConn\<lparr>namePrefix := ''/home''\<rparr>) ''a//b/./../c/''"
proof -
  have v: "buildPath (demoConn\<lparr>namePrefix := ''/home''\<rparr>) ''a//b/./../c/'' = ''/home/a/c''"
    by code_simp
  have h: "namePrefix (demoConn\<lparr>namePrefix := ''/home''\<rparr>) \<noteq> []
           \<and> hd (namePrefix (demoConn\<lparr>namePrefix := ''/home''\<rparr>)) = slash"
    by (simp add: slash_def)
  from buildPath_canonical [of "demoConn\<lparr>namePrefix := ''/home''\<rparr>" "''a//b/./../c/''"] h v
  show ?thesis by blast
qed

end
